theory Spec2Isabelle
  imports Complex_Main "HOL-Library.Word"
begin

section \<open>The input layer of fplbase (src/input.cpp)\<close>

text \<open>
  The model follows the Android build of \<^verbatim>\<open>input.cpp\<close>, in which
  \<^verbatim>\<open>ANDROID_GAMEPAD\<close>, \<^verbatim>\<open>ANDROID_CARDBOARD\<close> and \<^verbatim>\<open>PLATFORM_MOBILE\<close> are
  defined. Mutation is explicit state passing; \<^verbatim>\<open>assert\<close> and a read outside a
  vector are error values; a \<^verbatim>\<open>std::map\<close> is a partial function; a
  \<^verbatim>\<open>std::vector\<close> and a \<^verbatim>\<open>std::queue\<close> are lists. A \<^verbatim>\<open>float\<close> is a real
  number: the order of finite floats is the order of the reals and their negation is
  exact; the one division (line 246) and the products (lines 368-369) are computed
  without rounding. An \<^verbatim>\<open>int\<close> is an unbounded integer: the sums of lines 182, 187
  and 369 do not wrap.
\<close>

datatype error = AssertionFailure | OutOfRange

type_synonym vec2i = "int \<times> int"
type_synonym vec2 = "real \<times> real"

subsection \<open>Button\<close>

record Button =
  is_down :: bool
  went_down :: bool
  went_up :: bool

text \<open>
  Modelled from the spec: the constructor of \<^verbatim>\<open>Button\<close> is in \<^verbatim>\<open>input.h\<close>, which
  is not among the sources. The spec: a previously unseen id "creates a fresh
  zero-initialized Control".
\<close>

definition Button_new :: Button where
  "Button_new = \<lparr>is_down = False, went_down = False, went_up = False\<rparr>"

text \<open>
  Modelled from the spec: \<^verbatim>\<open>Button::AdvanceFrame\<close> is in \<^verbatim>\<open>input.h\<close>. The spec:
  "\<^verbatim>\<open>AdvanceFrame()\<close> clears \<^verbatim>\<open>went_down\<close> and \<^verbatim>\<open>went_up\<close>".
\<close>

definition Button_AdvanceFrame :: "Button \<Rightarrow> Button" where
  "Button_AdvanceFrame b = b\<lparr>went_down := False, went_up := False\<rparr>"

text \<open>\<^verbatim>\<open>Button::Update\<close>, lines 429-436.\<close>

definition Button_Update :: "Button \<Rightarrow> bool \<Rightarrow> Button" where
  "Button_Update b down =
     (let b1 = (if \<not> is_down b \<and> down then b\<lparr>went_down := True\<rparr>
                else if is_down b \<and> \<not> down then b\<lparr>went_up := True\<rparr>
                else b)
      in b1\<lparr>is_down := down\<rparr>)"

subsection \<open>Joystick controls\<close>

text \<open>
  Modelled from the spec: \<^verbatim>\<open>JoystickAxis\<close> and \<^verbatim>\<open>JoystickHat\<close> are declared in
  \<^verbatim>\<open>input.h\<close>. The spec: an axis is one value with no edge tracking, its
  \<^verbatim>\<open>Update(value)\<close> "sets value directly" and its \<^verbatim>\<open>AdvanceFrame\<close> "is a no-op
  placeholder"; a hat is a 2D vector that \<^verbatim>\<open>Update(direction)\<close> sets, under the same
  per-frame contract.
\<close>

record JoystickAxis =
  axis_value :: real

record JoystickHat =
  hat_value :: vec2

definition JoystickAxis_new :: JoystickAxis where
  "JoystickAxis_new = \<lparr>axis_value = 0\<rparr>"

definition JoystickAxis_Update :: "JoystickAxis \<Rightarrow> real \<Rightarrow> JoystickAxis" where
  "JoystickAxis_Update a new_value = a\<lparr>axis_value := new_value\<rparr>"

definition JoystickAxis_AdvanceFrame :: "JoystickAxis \<Rightarrow> JoystickAxis" where
  "JoystickAxis_AdvanceFrame a = a"

definition JoystickHat_new :: JoystickHat where
  "JoystickHat_new = \<lparr>hat_value = (0, 0)\<rparr>"

definition JoystickHat_Update :: "JoystickHat \<Rightarrow> vec2 \<Rightarrow> JoystickHat" where
  "JoystickHat_Update h new_value = h\<lparr>hat_value := new_value\<rparr>"

definition JoystickHat_AdvanceFrame :: "JoystickHat \<Rightarrow> JoystickHat" where
  "JoystickHat_AdvanceFrame h = h"

subsection \<open>Joystick\<close>

text \<open>
  The fields are those \<^verbatim>\<open>input.cpp\<close> uses. \<^verbatim>\<open>joystick_data_\<close> is the SDL handle,
  \<open>None\<close> for \<^verbatim>\<open>nullptr\<close>.
\<close>

record Joystick =
  joystick_data :: "nat option"
  button_list :: "Button list"
  axis_list :: "JoystickAxis list"
  hat_list :: "JoystickHat list"

text \<open>
  Modelled from the spec: the constructor of \<^verbatim>\<open>Joystick\<close> is in \<^verbatim>\<open>input.h\<close>. The
  spec: buttons, axes and hats are "growable indexed" collections; a new joystick has
  none yet, and no handle before \<^verbatim>\<open>set_joystick_data\<close>.
\<close>

definition Joystick_new :: Joystick where
  "Joystick_new = \<lparr>joystick_data = None, button_list = [], axis_list = [], hat_list = []\<rparr>"

text \<open>\<^verbatim>\<open>std::vector::resize(n)\<close>, new elements built by the default constructor.\<close>

definition resize :: "nat \<Rightarrow> 'a \<Rightarrow> 'a list \<Rightarrow> 'a list" where
  "resize n d xs = take n xs @ replicate (n - length xs) d"

text \<open>
  \<^verbatim>\<open>Joystick::GetButton\<close>, \<^verbatim>\<open>GetAxis\<close>, \<^verbatim>\<open>GetHat\<close>, lines 438-457. Each returns a
  reference into the (possibly resized) vector: the model returns the element and the
  joystick after the resize.
\<close>

definition Joystick_GetButton :: "Joystick \<Rightarrow> nat \<Rightarrow> Button \<times> Joystick" where
  "Joystick_GetButton j button_index =
     (let j1 = (if button_index \<ge> length (button_list j)
                then j\<lparr>button_list := resize (button_index + 1) Button_new (button_list j)\<rparr>
                else j)
      in (button_list j1 ! button_index, j1))"

definition Joystick_GetAxis :: "Joystick \<Rightarrow> nat \<Rightarrow> JoystickAxis \<times> Joystick" where
  "Joystick_GetAxis j axis_index =
     (let j1 = (if axis_index \<ge> length (axis_list j)
                then j\<lparr>axis_list := resize (axis_index + 1) JoystickAxis_new (axis_list j)\<rparr>
                else j)
      in (axis_list j1 ! axis_index, j1))"

definition Joystick_GetHat :: "Joystick \<Rightarrow> nat \<Rightarrow> JoystickHat \<times> Joystick" where
  "Joystick_GetHat j hat_index =
     (let j1 = (if hat_index \<ge> length (hat_list j)
                then j\<lparr>hat_list := resize (hat_index + 1) JoystickHat_new (hat_list j)\<rparr>
                else j)
      in (hat_list j1 ! hat_index, j1))"

text \<open>\<^verbatim>\<open>Joystick::AdvanceFrame\<close>, lines 460-470.\<close>

definition Joystick_AdvanceFrame :: "Joystick \<Rightarrow> Joystick" where
  "Joystick_AdvanceFrame j =
     j\<lparr>button_list := map Button_AdvanceFrame (button_list j),
       axis_list := map JoystickAxis_AdvanceFrame (axis_list j),
       hat_list := map JoystickHat_AdvanceFrame (hat_list j)\<rparr>"

subsection \<open>Gamepad\<close>

text \<open>
  Modelled from the spec: the enumeration \<^verbatim>\<open>Gamepad::GamepadInputButton\<close> is in
  \<^verbatim>\<open>input.h\<close>. The spec: a gamepad has a "fixed-size array indexed by a small
  enumerated button set (Up/Down/Left/Right/A/B/C)". The buttons are numbered from 0 in
  that order, which is also the order of the table in
  \<^verbatim>\<open>GetGamepadCodeFromJavaKeyCode\<close>; \<^verbatim>\<open>kControlCount\<close> is their number, the bound
  \<^verbatim>\<open>Gamepad::GetButton\<close> asserts; \<^verbatim>\<open>kInvalid\<close> is no button.
\<close>

definition kInvalid :: int where "kInvalid = - 1"
definition kUp :: int where "kUp = 0"
definition kDown :: int where "kDown = 1"
definition kLeft :: int where "kLeft = 2"
definition kRight :: int where "kRight = 3"
definition kButtonA :: int where "kButtonA = 4"
definition kButtonB :: int where "kButtonB = 5"
definition kButtonC :: int where "kButtonC = 6"
definition kControlCount :: int where "kControlCount = 7"

record Gamepad =
  controller_id :: int
  gamepad_button_list :: "Button list"

text \<open>
  Modelled from the spec: the constructor of \<^verbatim>\<open>Gamepad\<close> is in \<^verbatim>\<open>input.h\<close>; the
  button array has its fixed size, one fresh button per enumerated button, from the
  start. The controller id is the one \<^verbatim>\<open>GetGamepad\<close> sets right after construction.
\<close>

definition Gamepad_new :: "int \<Rightarrow> Gamepad" where
  "Gamepad_new gamepad_device_id =
     \<lparr>controller_id = gamepad_device_id,
      gamepad_button_list = replicate (nat kControlCount) Button_new\<rparr>"

text \<open>\<^verbatim>\<open>Gamepad::AdvanceFrame\<close>, lines 547-551.\<close>

definition Gamepad_AdvanceFrame :: "Gamepad \<Rightarrow> Gamepad" where
  "Gamepad_AdvanceFrame g =
     g\<lparr>gamepad_button_list := map Button_AdvanceFrame (gamepad_button_list g)\<rparr>"

text \<open>
  \<^verbatim>\<open>Gamepad::GetButton\<close>, lines 553-557: the assertion, then the read of the vector,
  which is outside the vector when the vector is shorter than the index.
\<close>

definition Gamepad_GetButton :: "Gamepad \<Rightarrow> int \<Rightarrow> error + Button" where
  "Gamepad_GetButton g index =
     (if \<not> (index \<ge> 0 \<and> index < kControlCount) then Inl AssertionFailure
      else if nat index < length (gamepad_button_list g)
           then Inr (gamepad_button_list g ! nat index)
           else Inl OutOfRange)"

text \<open>\<^verbatim>\<open>gamepad.GetButton(index).Update(down)\<close>: the write through the reference.\<close>

definition Gamepad_GetButton_Update :: "Gamepad \<Rightarrow> int \<Rightarrow> bool \<Rightarrow> error + Gamepad" where
  "Gamepad_GetButton_Update g index down =
     (case Gamepad_GetButton g index of
        Inl err \<Rightarrow> Inl err
      | Inr b \<Rightarrow> Inr (g\<lparr>gamepad_button_list :=
                          (gamepad_button_list g)[nat index := Button_Update b down]\<rparr>))"

text \<open>
  The key codes of \<^verbatim>\<open>android/keycodes.h\<close> and the event actions of
  \<^verbatim>\<open>android/input.h\<close> (the Android NDK, outside the repository), with the
  values the NDK gives them.
\<close>

definition AKEYCODE_DPAD_UP :: int where "AKEYCODE_DPAD_UP = 19"
definition AKEYCODE_DPAD_DOWN :: int where "AKEYCODE_DPAD_DOWN = 20"
definition AKEYCODE_DPAD_LEFT :: int where "AKEYCODE_DPAD_LEFT = 21"
definition AKEYCODE_DPAD_RIGHT :: int where "AKEYCODE_DPAD_RIGHT = 22"
definition AKEYCODE_DPAD_CENTER :: int where "AKEYCODE_DPAD_CENTER = 23"
definition AKEYCODE_BUTTON_A :: int where "AKEYCODE_BUTTON_A = 96"
definition AKEYCODE_BUTTON_B :: int where "AKEYCODE_BUTTON_B = 97"
definition AKEYCODE_BUTTON_C :: int where "AKEYCODE_BUTTON_C = 98"

definition AKEY_EVENT_ACTION_DOWN :: int where "AKEY_EVENT_ACTION_DOWN = 0"
definition AKEY_EVENT_ACTION_UP :: int where "AKEY_EVENT_ACTION_UP = 1"
definition AMOTION_EVENT_ACTION_MOVE :: int where "AMOTION_EVENT_ACTION_MOVE = 2"

text \<open>
  \<^verbatim>\<open>Gamepad::GetGamepadCodeFromJavaKeyCode\<close>, lines 566-586: the table of
  \<^verbatim>\<open>{java_keycode, gamepad_code}\<close> pairs and the loop over its indices below
  \<^verbatim>\<open>kControlCount\<close>.
\<close>

definition kJavaToGamepadMap :: "(int \<times> int) list" where
  "kJavaToGamepadMap =
     [(AKEYCODE_DPAD_UP, kUp),
      (AKEYCODE_DPAD_DOWN, kDown),
      (AKEYCODE_DPAD_LEFT, kLeft),
      (AKEYCODE_DPAD_RIGHT, kRight),
      (AKEYCODE_DPAD_CENTER, kButtonA),
      (AKEYCODE_BUTTON_A, kButtonA),
      (AKEYCODE_BUTTON_B, kButtonB),
      (AKEYCODE_BUTTON_C, kButtonC)]"

function GetGamepadCode_loop :: "int \<Rightarrow> int \<Rightarrow> int" where
  "GetGamepadCode_loop java_keycode i =
     (if 0 \<le> i \<and> i < kControlCount then
        (if fst (kJavaToGamepadMap ! nat i) = java_keycode
         then snd (kJavaToGamepadMap ! nat i)
         else GetGamepadCode_loop java_keycode (i + 1))
      else kInvalid)"
  by pat_completeness auto
termination
  by (relation "measure (\<lambda>(k, i). nat (kControlCount - i))") auto

definition GetGamepadCodeFromJavaKeyCode :: "int \<Rightarrow> int" where
  "GetGamepadCodeFromJavaKeyCode java_keycode = GetGamepadCode_loop java_keycode 0"

subsection \<open>The gamepad events received from Java\<close>

record AndroidInputEvent =
  device_id :: int
  event_code :: int
  control_code :: int
  event_x :: real
  event_y :: real

definition kMaxAndroidEventsPerFrame :: nat where
  "kMaxAndroidEventsPerFrame = 100"

text \<open>
  \<^verbatim>\<open>InputSystem::ReceiveGamepadEvent\<close>, lines 491-500, on the static queue
  \<^verbatim>\<open>unhandled_java_input_events_\<close>.
\<close>

definition ReceiveGamepadEvent ::
  "AndroidInputEvent list \<Rightarrow> int \<Rightarrow> int \<Rightarrow> int \<Rightarrow> real \<Rightarrow> real \<Rightarrow> AndroidInputEvent list" where
  "ReceiveGamepadEvent queue dev ecode ccode x y =
     (if length queue < kMaxAndroidEventsPerFrame
      then queue @ [\<lparr>device_id = dev, event_code = ecode, control_code = ccode,
                     event_x = x, event_y = y\<rparr>]
      else queue)"

text \<open>\<^verbatim>\<open>InputSystem::GetGamepad\<close>, lines 320-329.\<close>

definition GetGamepad :: "int \<Rightarrow> (int \<rightharpoonup> Gamepad) \<Rightarrow> Gamepad \<times> (int \<rightharpoonup> Gamepad)" where
  "GetGamepad gamepad_device_id gm =
     (case gm gamepad_device_id of
        None \<Rightarrow> (Gamepad_new gamepad_device_id,
                  gm(gamepad_device_id \<mapsto> Gamepad_new gamepad_device_id))
      | Some gamepad \<Rightarrow> (gamepad, gm))"

text \<open>
  The body of the loop of \<^verbatim>\<open>InputSystem::HandleGamepadEvents\<close>, lines 510-539, for
  the event taken from the front of the queue. \<open>threshold\<close> is
  \<^verbatim>\<open>kGamepadHatThreshold\<close>, a constant of \<^verbatim>\<open>input.h\<close>.
\<close>

definition HandleGamepadEvent ::
  "real \<Rightarrow> (int \<rightharpoonup> Gamepad) \<Rightarrow> AndroidInputEvent \<Rightarrow> error + (int \<rightharpoonup> Gamepad)" where
  "HandleGamepadEvent threshold gm event =
     (let (gamepad, gm1) = GetGamepad (device_id event) gm in
      if event_code event = AKEY_EVENT_ACTION_DOWN then
        (let button_index = GetGamepadCodeFromJavaKeyCode (control_code event) in
         if button_index \<noteq> kInvalid then
           (case Gamepad_GetButton_Update gamepad button_index True of
              Inl err \<Rightarrow> Inl err
            | Inr g \<Rightarrow> Inr (gm1(device_id event \<mapsto> g)))
         else Inr gm1)
      else if event_code event = AKEY_EVENT_ACTION_UP then
        (let button_index = GetGamepadCodeFromJavaKeyCode (control_code event) in
         if button_index \<noteq> kInvalid then
           (case Gamepad_GetButton_Update gamepad button_index False of
              Inl err \<Rightarrow> Inl err
            | Inr g \<Rightarrow> Inr (gm1(device_id event \<mapsto> g)))
         else Inr gm1)
      else if event_code event = AMOTION_EVENT_ACTION_MOVE then
        (let left = event_x event < - threshold;
             right = event_x event > threshold;
             up = event_y event < - threshold;
             down = event_y event > threshold
         in case Gamepad_GetButton_Update gamepad kLeft left of
              Inl err \<Rightarrow> Inl err
            | Inr g1 \<Rightarrow>
          (case Gamepad_GetButton_Update g1 kRight right of
              Inl err \<Rightarrow> Inl err
            | Inr g2 \<Rightarrow>
          (case Gamepad_GetButton_Update g2 kUp up of
              Inl err \<Rightarrow> Inl err
            | Inr g3 \<Rightarrow>
          (case Gamepad_GetButton_Update g3 kDown down of
              Inl err \<Rightarrow> Inl err
            | Inr g4 \<Rightarrow> Inr (gm1(device_id event \<mapsto> g4))))))
      else Inr gm1)"

text \<open>
  The loop of \<^verbatim>\<open>HandleGamepadEvents\<close>, lines 506-540: while the queue is not empty,
  take its front, pop it, handle it. It returns the gamepads and what is left of the
  queue.
\<close>

fun HandleGamepadEvents_loop ::
  "real \<Rightarrow> (int \<rightharpoonup> Gamepad) \<Rightarrow> AndroidInputEvent list \<Rightarrow>
   error + ((int \<rightharpoonup> Gamepad) \<times> AndroidInputEvent list)" where
  "HandleGamepadEvents_loop threshold gm [] = Inr (gm, [])"
| "HandleGamepadEvents_loop threshold gm (event # queue) =
     (case HandleGamepadEvent threshold gm event of
        Inl err \<Rightarrow> Inl err
      | Inr gm1 \<Rightarrow> HandleGamepadEvents_loop threshold gm1 queue)"

subsection \<open>Cardboard\<close>

text \<open>
  The two flags of \<^verbatim>\<open>CardboardInput\<close>. The eye transforms, which
  \<^verbatim>\<open>UpdateCardboardTransforms\<close> fetches through JNI, are left out: nothing else
  reads them.
\<close>

record CardboardInput =
  pending_trigger :: bool
  triggered :: bool

text \<open>
  Modelled from the spec: \<^verbatim>\<open>CardboardInput::OnCardboardTrigger\<close> is in
  \<^verbatim>\<open>input.h\<close>. The spec: a "pending" trigger flag is "set by an input event".
\<close>

definition OnCardboardTrigger :: "CardboardInput \<Rightarrow> CardboardInput" where
  "OnCardboardTrigger c = c\<lparr>pending_trigger := True\<rparr>"

text \<open>\<^verbatim>\<open>CardboardInput::AdvanceFrame\<close>, lines 603-610.\<close>

definition CardboardInput_AdvanceFrame :: "CardboardInput \<Rightarrow> CardboardInput" where
  "CardboardInput_AdvanceFrame c =
     (if pending_trigger c \<noteq> triggered c
      then c\<lparr>triggered := pending_trigger c, pending_trigger := False\<rparr>
      else c)"

subsection \<open>Pointers\<close>

record Pointer =
  pointer_id :: int
  mousepos :: vec2i
  mousedelta :: vec2i
  used :: bool

text \<open>\<^verbatim>\<open>InputSystem::RemovePointer\<close>, line 332.\<close>

definition RemovePointer :: "nat \<Rightarrow> Pointer list \<Rightarrow> error + Pointer list" where
  "RemovePointer i ps =
     (if i < length ps then Inr (ps[i := (ps ! i)\<lparr>used := False\<rparr>]) else Inl OutOfRange)"

text \<open>
  \<^verbatim>\<open>InputSystem::FindPointer\<close>, lines 334-349: the two loops, from index \<open>i\<close>
  on, over the pointers not yet visited.
\<close>

fun FindPointer_used :: "int \<Rightarrow> Pointer list \<Rightarrow> nat \<Rightarrow> nat option" where
  "FindPointer_used fid [] i = None"
| "FindPointer_used fid (p # ps) i =
     (if used p \<and> pointer_id p = fid then Some i else FindPointer_used fid ps (Suc i))"

fun FindPointer_free :: "Pointer list \<Rightarrow> nat \<Rightarrow> nat option" where
  "FindPointer_free [] i = None"
| "FindPointer_free (p # ps) i =
     (if \<not> used p then Some i else FindPointer_free ps (Suc i))"

definition FindPointer :: "int \<Rightarrow> Pointer list \<Rightarrow> error + (nat \<times> Pointer list)" where
  "FindPointer fid ps =
     (case FindPointer_used fid ps 0 of
        Some i \<Rightarrow> Inr (i, ps)
      | None \<Rightarrow>
          (case FindPointer_free ps 0 of
             Some i \<Rightarrow> Inr (i, ps[i := (ps ! i)\<lparr>pointer_id := fid, used := True\<rparr>])
           | None \<Rightarrow> Inl AssertionFailure))"

record SDL_TouchFingerEvent =
  fingerId :: int
  finger_x :: real
  finger_y :: real
  finger_dx :: real
  finger_dy :: real

datatype finger_event_type = SDL_FINGERDOWN | SDL_FINGERUP | SDL_FINGERMOTION

text \<open>The conversion of a \<^verbatim>\<open>float\<close> to \<^verbatim>\<open>int\<close>: towards zero.\<close>

definition float_to_int :: "real \<Rightarrow> int" where
  "float_to_int r = (if 0 \<le> r then \<lfloor>r\<rfloor> else \<lceil>r\<rceil>)"

text \<open>
  \<^verbatim>\<open>InputSystem::UpdateDragPosition\<close>, lines 351-374. \<open>fingers\<close> are the ids of the
  fingers SDL enumerates for the event's touch device
  (\<^verbatim>\<open>SDL_GetNumTouchFingers\<close>, \<^verbatim>\<open>SDL_GetTouchFinger\<close>), those the loop has yet to
  visit.
\<close>

fun UpdateDragPosition ::
  "int list \<Rightarrow> SDL_TouchFingerEvent \<Rightarrow> finger_event_type \<Rightarrow> vec2i \<Rightarrow> Pointer list \<Rightarrow>
   error + (nat \<times> Pointer list)" where
  "UpdateDragPosition [] e event_type window_size ps = Inr (0, ps)"
| "UpdateDragPosition (finger # fingers) e event_type window_size ps =
     (if finger = fingerId e then
        (case FindPointer (fingerId e) ps of
           Inl err \<Rightarrow> Inl err
         | Inr (j, ps1) \<Rightarrow>
             (case (if event_type = SDL_FINGERUP then RemovePointer j ps1 else Inr ps1) of
                Inl err \<Rightarrow> Inl err
              | Inr ps2 \<Rightarrow>
                  if j < length ps2 then
                    (let p = ps2 ! j;
                         event_position = (finger_x e, finger_y e);
                         event_delta = (finger_dx e, finger_dy e);
                         w = (real_of_int (fst window_size), real_of_int (snd window_size))
                     in Inr (j, ps2[j := p\<lparr>
                          mousepos := (float_to_int (fst event_position * fst w),
                                       float_to_int (snd event_position * snd w)),
                          mousedelta := (fst (mousedelta p) + float_to_int (fst event_delta * fst w),
                                         snd (mousedelta p) + float_to_int (snd event_delta * snd w))\<rparr>]))
                  else Inl OutOfRange))
      else UpdateDragPosition fingers e event_type window_size ps)"

subsection \<open>The events SDL delivers\<close>

text \<open>
  One constructor per member of the \<^verbatim>\<open>SDL_Event\<close> union that \<^verbatim>\<open>AdvanceFrame\<close>
  reads, with the fields it reads. Key down and key up, mouse button down and up,
  joystick button down and up, device added and removed each share a \<^verbatim>\<open>case\<close> of
  the \<^verbatim>\<open>switch\<close>, so each pair is one constructor. What the code asks SDL while it
  handles an event travels with the event: the finger ids SDL enumerates for a touch
  event, and for a joystick device event the connected joysticks, each with the handle
  \<^verbatim>\<open>SDL_JoystickOpen\<close> returns and its \<^verbatim>\<open>SDL_JoystickInstanceID\<close>.

  The fields, in order: \<open>KeyboardEv\<close> \<^verbatim>\<open>keysym.sym state repeat keysym.mod\<close>;
  \<open>TouchFingerEv\<close> the event type, SDL's finger ids, \<^verbatim>\<open>tfinger\<close>;
  \<open>MouseButtonEv\<close> \<^verbatim>\<open>button state x y\<close>; \<open>MouseMotionEv\<close> \<^verbatim>\<open>xrel yrel x y\<close>;
  \<open>MouseWheelEv\<close> \<^verbatim>\<open>x y\<close>; \<open>WindowEv\<close> \<^verbatim>\<open>event data1 data2\<close>;
  \<open>JoyAxisEv\<close> \<^verbatim>\<open>which axis value\<close>, the value a \<^verbatim>\<open>Sint16\<close>;
  \<open>JoyButtonEv\<close> \<^verbatim>\<open>which button state\<close>; \<open>JoyHatEv\<close> \<^verbatim>\<open>which hat value\<close>;
  \<open>JoyDeviceEv\<close> the connected joysticks; \<open>TextEditingEv\<close> \<^verbatim>\<open>text start length\<close>;
  \<open>TextInputEv\<close> \<^verbatim>\<open>text\<close>; \<open>OtherEv\<close> stands for every other event type,
  which the \<^verbatim>\<open>default\<close> case only logs.
\<close>

datatype SDL_Event =
    QuitEv
  | KeyboardEv int nat nat int
  | TouchFingerEv finger_event_type "int list" SDL_TouchFingerEvent
  | MouseButtonEv int nat int int
  | MouseMotionEv int int int int
  | MouseWheelEv int int
  | WindowEv nat int int
  | JoyAxisEv int nat "16 word"
  | JoyButtonEv int nat nat
  | JoyHatEv int nat nat
  | JoyDeviceEv "(nat option \<times> int) list"
  | TextEditingEv string int int
  | TextInputEv string
  | OtherEv

definition SDL_PRESSED :: nat where "SDL_PRESSED = 1"
definition SDL_WINDOWEVENT_RESIZED :: nat where "SDL_WINDOWEVENT_RESIZED = 5"

definition SDL_HAT_CENTERED :: nat where "SDL_HAT_CENTERED = 0"
definition SDL_HAT_UP :: nat where "SDL_HAT_UP = 1"
definition SDL_HAT_RIGHT :: nat where "SDL_HAT_RIGHT = 2"
definition SDL_HAT_DOWN :: nat where "SDL_HAT_DOWN = 4"
definition SDL_HAT_LEFT :: nat where "SDL_HAT_LEFT = 8"
definition SDL_HAT_RIGHTUP :: nat where "SDL_HAT_RIGHTUP = 3"
definition SDL_HAT_RIGHTDOWN :: nat where "SDL_HAT_RIGHTDOWN = 6"
definition SDL_HAT_LEFTUP :: nat where "SDL_HAT_LEFTUP = 9"
definition SDL_HAT_LEFTDOWN :: nat where "SDL_HAT_LEFTDOWN = 12"

text \<open>The three constructors of \<^verbatim>\<open>TextInputEvent\<close> that \<^verbatim>\<open>AdvanceFrame\<close> calls.\<close>

datatype TextInputEvent =
    TextKey bool bool int int
  | TextEdit string int int
  | TextText string

subsection \<open>InputSystem\<close>

text \<open>
  The state of \<^verbatim>\<open>InputSystem\<close> that the event handling reads and writes. The
  clock (\<^verbatim>\<open>frame_time_\<close>, \<^verbatim>\<open>last_millis_\<close>, \<^verbatim>\<open>frames_\<close>), the frame-rate log and
  the application callbacks are left out. The two static members, the queue of gamepad
  events and the Cardboard input, are fields of the state.
\<close>

record InputSystem =
  exit_requested :: bool
  button_map :: "int \<rightharpoonup> Button"
  pointers :: "Pointer list"
  mousewheel_delta :: vec2i
  joystick_map :: "int \<rightharpoonup> Joystick"
  gamepad_map :: "int \<rightharpoonup> Gamepad"
  unhandled_java_input_events :: "AndroidInputEvent list"
  cardboard_input :: CardboardInput
  record_text_input :: bool
  text_input_events :: "TextInputEvent list"

text \<open>
  The constants of \<^verbatim>\<open>input.h\<close> that \<^verbatim>\<open>input.cpp\<close> uses and no source gives: the
  key of the first pointer button in the button map, and the gamepad's deadzone.
\<close>

record input_h =
  SDLK_POINTER1 :: int
  kGamepadHatThreshold :: real

text \<open>
  \<^verbatim>\<open>InputSystem::GetButton\<close>, lines 300-304: the button and the state, in which the
  button map has the key.
\<close>

definition InputSystem_GetButton :: "int \<Rightarrow> InputSystem \<Rightarrow> Button \<times> InputSystem" where
  "InputSystem_GetButton button s =
     (case button_map s button of
        Some b \<Rightarrow> (b, s)
      | None \<Rightarrow> (Button_new, s\<lparr>button_map := (button_map s)(button \<mapsto> Button_new)\<rparr>))"

text \<open>\<^verbatim>\<open>GetButton(button).Update(down)\<close>: the write through the reference.\<close>

definition GetButton_Update :: "int \<Rightarrow> bool \<Rightarrow> InputSystem \<Rightarrow> InputSystem" where
  "GetButton_Update button down s =
     (let (b, s1) = InputSystem_GetButton button s
      in s1\<lparr>button_map := (button_map s1)(button \<mapsto> Button_Update b down)\<rparr>)"

text \<open>
  Modelled from the spec: \<^verbatim>\<open>InputSystem::GetPointerButton\<close> is in \<^verbatim>\<open>input.h\<close>. The
  spec: the button map is keyed by "button index for pointer", and looking up an unseen
  id creates a fresh Control, which "makes \<^verbatim>\<open>GetButton\<close>/\<^verbatim>\<open>GetPointerButton\<close> total
  functions". The pointer buttons start at the key \<^verbatim>\<open>SDLK_POINTER1\<close>.
\<close>

definition GetPointerButton_Update :: "input_h \<Rightarrow> int \<Rightarrow> bool \<Rightarrow> InputSystem \<Rightarrow> InputSystem" where
  "GetPointerButton_Update h pointer down s = GetButton_Update (SDLK_POINTER1 h + pointer) down s"

text \<open>\<^verbatim>\<open>InputSystem::GetJoystick\<close>, lines 314-318.\<close>

definition GetJoystick :: "int \<Rightarrow> InputSystem \<Rightarrow> error + Joystick" where
  "GetJoystick joystick_id s =
     (case joystick_map s joystick_id of
        None \<Rightarrow> Inl AssertionFailure
      | Some j \<Rightarrow> Inr j)"

text \<open>\<^verbatim>\<open>InputSystem::CloseOpenJoysticks\<close>, lines 404-410.\<close>

definition CloseOpenJoysticks :: "(int \<rightharpoonup> Joystick) \<Rightarrow> (int \<rightharpoonup> Joystick)" where
  "CloseOpenJoysticks jm = (\<lambda>joystick_id. map_option (\<lambda>j. j\<lparr>joystick_data := None\<rparr>) (jm joystick_id))"

text \<open>
  \<^verbatim>\<open>InputSystem::OpenConnectedJoysticks\<close>, lines 381-402, over the joysticks SDL
  reports as connected, in the order of their device indices. \<open>j1\<close> is
  \<^verbatim>\<open>joystick_map_[joystick_id]\<close>, which would build the entry if it were missing.
\<close>

fun OpenConnectedJoysticks ::
  "(nat option \<times> int) list \<Rightarrow> (int \<rightharpoonup> Joystick) \<Rightarrow> (int \<rightharpoonup> Joystick)" where
  "OpenConnectedJoysticks [] jm = jm"
| "OpenConnectedJoysticks ((sdl_joystick, joystick_id) # devices) jm =
     (let jm1 = (case jm joystick_id of
                   None \<Rightarrow> jm(joystick_id \<mapsto> Joystick_new)
                 | Some j \<Rightarrow> jm);
          j1 = (case jm1 joystick_id of None \<Rightarrow> Joystick_new | Some j \<Rightarrow> j)
      in OpenConnectedJoysticks devices
           (jm1(joystick_id \<mapsto> j1\<lparr>joystick_data := sdl_joystick\<rparr>)))"

text \<open>\<^verbatim>\<open>InputSystem::UpdateConnectedJoystickList\<close>, lines 376-379.\<close>

definition UpdateConnectedJoystickList ::
  "(nat option \<times> int) list \<Rightarrow> (int \<rightharpoonup> Joystick) \<Rightarrow> (int \<rightharpoonup> Joystick)" where
  "UpdateConnectedJoystickList devices jm =
     OpenConnectedJoysticks devices (CloseOpenJoysticks jm)"

text \<open>\<^verbatim>\<open>InputSystem::ConvertHatToVector\<close>, lines 263-289.\<close>

definition ConvertHatToVector :: "nat \<Rightarrow> vec2" where
  "ConvertHatToVector hat_enum =
     (if hat_enum = SDL_HAT_LEFTUP then (- 1, - 1)
      else if hat_enum = SDL_HAT_UP then (0, - 1)
      else if hat_enum = SDL_HAT_RIGHTUP then (1, - 1)
      else if hat_enum = SDL_HAT_LEFT then (- 1, 0)
      else if hat_enum = SDL_HAT_CENTERED then (0, 0)
      else if hat_enum = SDL_HAT_RIGHT then (1, 0)
      else if hat_enum = SDL_HAT_LEFTDOWN then (- 1, 1)
      else if hat_enum = SDL_HAT_DOWN then (0, 1)
      else if hat_enum = SDL_HAT_RIGHTDOWN then (1, 1)
      else (0, 0))"

text \<open>
  Line 36, and the value line 246 passes to the axis, as the exact quotient; the
  \<^verbatim>\<open>float\<close> division of the code rounds it, at the raw value \<open>-32768\<close> to
  \<open>-32769 / 32768\<close>.
\<close>

definition kJoystickAxisRange :: real where
  "kJoystickAxisRange = 32767"

definition normalized_axis_value :: "16 word \<Rightarrow> real" where
  "normalized_axis_value raw = real_of_int (sint raw) / kJoystickAxisRange"

text \<open>\<^verbatim>\<open>InputSystem::HandleJoystickEvent\<close>, lines 235-260.\<close>

fun HandleJoystickEvent :: "SDL_Event \<Rightarrow> InputSystem \<Rightarrow> error + InputSystem" where
  "HandleJoystickEvent (JoyDeviceEv devices) s =
     Inr (s\<lparr>joystick_map := UpdateConnectedJoystickList devices (joystick_map s)\<rparr>)"
| "HandleJoystickEvent (JoyAxisEv which axis raw) s =
     (case GetJoystick which s of
        Inl err \<Rightarrow> Inl err
      | Inr j \<Rightarrow>
          (let (a, j1) = Joystick_GetAxis j axis;
               j2 = j1\<lparr>axis_list := (axis_list j1)
                      [axis := JoystickAxis_Update a (normalized_axis_value raw)]\<rparr>
           in Inr (s\<lparr>joystick_map := (joystick_map s)(which \<mapsto> j2)\<rparr>)))"
| "HandleJoystickEvent (JoyButtonEv which button state) s =
     (case GetJoystick which s of
        Inl err \<Rightarrow> Inl err
      | Inr j \<Rightarrow>
          (let (b, j1) = Joystick_GetButton j button;
               j2 = j1\<lparr>button_list := (button_list j1)
                      [button := Button_Update b (state = SDL_PRESSED)]\<rparr>
           in Inr (s\<lparr>joystick_map := (joystick_map s)(which \<mapsto> j2)\<rparr>)))"
| "HandleJoystickEvent (JoyHatEv which hat hat_enum) s =
     (case GetJoystick which s of
        Inl err \<Rightarrow> Inl err
      | Inr j \<Rightarrow>
          (let (h, j1) = Joystick_GetHat j hat;
               j2 = j1\<lparr>hat_list := (hat_list j1)
                      [hat := JoystickHat_Update h (ConvertHatToVector hat_enum)]\<rparr>
           in Inr (s\<lparr>joystick_map := (joystick_map s)(which \<mapsto> j2)\<rparr>)))"
| "HandleJoystickEvent _ s = Inr s"

text \<open>
  \<^verbatim>\<open>InputSystem::HandleGamepadEvents\<close>, lines 503-544: the loop, then the swap with
  an empty queue.
\<close>

definition HandleGamepadEvents :: "input_h \<Rightarrow> InputSystem \<Rightarrow> error + InputSystem" where
  "HandleGamepadEvents h s =
     (case HandleGamepadEvents_loop (kGamepadHatThreshold h) (gamepad_map s)
             (unhandled_java_input_events s) of
        Inl err \<Rightarrow> Inl err
      | Inr (gm, queue) \<Rightarrow>
          Inr (s\<lparr>gamepad_map := gm, unhandled_java_input_events := []\<rparr>))"

text \<open>
  The body of the \<^verbatim>\<open>switch\<close> in \<^verbatim>\<open>InputSystem::AdvanceFrame\<close>, lines 127-226, on
  one polled event. The window size is the in-out parameter \<^verbatim>\<open>window_size\<close>. In a
  mouse motion event the code reads the position through \<^verbatim>\<open>event.button\<close>, which is
  at the place of the motion event's own position.
\<close>

fun HandleEvent ::
  "input_h \<Rightarrow> SDL_Event \<Rightarrow> vec2i \<times> InputSystem \<Rightarrow> error + (vec2i \<times> InputSystem)" where
  "HandleEvent h QuitEv (ws, s) = Inr (ws, s\<lparr>exit_requested := True\<rparr>)"
| "HandleEvent h (KeyboardEv keysym state repeat modifier) (ws, s) =
     (let s1 = GetButton_Update keysym (state = SDL_PRESSED) s
      in Inr (ws, if record_text_input s1
                  then s1\<lparr>text_input_events := text_input_events s1 @
                            [TextKey (state \<noteq> 0) (repeat \<noteq> 0) keysym modifier]\<rparr>
                  else s1))"
| "HandleEvent h (TouchFingerEv SDL_FINGERDOWN fingers e) (ws, s) =
     (case UpdateDragPosition fingers e SDL_FINGERDOWN ws (pointers s) of
        Inl err \<Rightarrow> Inl err
      | Inr (i, ps) \<Rightarrow>
          Inr (ws, GetPointerButton_Update h (int i) True (s\<lparr>pointers := ps\<rparr>)))"
| "HandleEvent h (TouchFingerEv SDL_FINGERUP fingers e) (ws, s) =
     (case FindPointer (fingerId e) (pointers s) of
        Inl err \<Rightarrow> Inl err
      | Inr (i, ps) \<Rightarrow>
          (case RemovePointer i ps of
             Inl err \<Rightarrow> Inl err
           | Inr ps1 \<Rightarrow>
               Inr (ws, GetPointerButton_Update h (int i) False (s\<lparr>pointers := ps1\<rparr>))))"
| "HandleEvent h (TouchFingerEv SDL_FINGERMOTION fingers e) (ws, s) =
     (case UpdateDragPosition fingers e SDL_FINGERMOTION ws (pointers s) of
        Inl err \<Rightarrow> Inl err
      | Inr (i, ps) \<Rightarrow> Inr (ws, s\<lparr>pointers := ps\<rparr>))"
| "HandleEvent h (MouseButtonEv button state x y) (ws, s) =
     (let s1 = GetPointerButton_Update h (button - 1) (state = SDL_PRESSED) s
      in case pointers s1 of
           [] \<Rightarrow> Inl OutOfRange
         | p # ps \<Rightarrow>
             (let s2 = s1\<lparr>pointers := p\<lparr>mousepos := (x, y), used := True\<rparr> # ps\<rparr>
              in Inr (ws, if state = SDL_PRESSED
                          then s2\<lparr>cardboard_input := OnCardboardTrigger (cardboard_input s2)\<rparr>
                          else s2)))"
| "HandleEvent h (MouseMotionEv xrel yrel x y) (ws, s) =
     (case pointers s of
        [] \<Rightarrow> Inl OutOfRange
      | p # ps \<Rightarrow>
          Inr (ws, s\<lparr>pointers :=
                      p\<lparr>mousedelta := (fst (mousedelta p) + xrel, snd (mousedelta p) + yrel),
                        mousepos := (x, y)\<rparr> # ps\<rparr>))"
| "HandleEvent h (MouseWheelEv x y) (ws, s) =
     Inr (ws, s\<lparr>mousewheel_delta :=
                 (fst (mousewheel_delta s) + x, snd (mousewheel_delta s) + y)\<rparr>)"
| "HandleEvent h (WindowEv event data1 data2) (ws, s) =
     (if event = SDL_WINDOWEVENT_RESIZED then Inr ((data1, data2), s) else Inr (ws, s))"
| "HandleEvent h (JoyAxisEv which axis raw) (ws, s) =
     (case HandleJoystickEvent (JoyAxisEv which axis raw) s of
        Inl err \<Rightarrow> Inl err
      | Inr s1 \<Rightarrow> Inr (ws, s1))"
| "HandleEvent h (JoyButtonEv which button state) (ws, s) =
     (case HandleJoystickEvent (JoyButtonEv which button state) s of
        Inl err \<Rightarrow> Inl err
      | Inr s1 \<Rightarrow> Inr (ws, s1))"
| "HandleEvent h (JoyHatEv which hat hat_enum) (ws, s) =
     (case HandleJoystickEvent (JoyHatEv which hat hat_enum) s of
        Inl err \<Rightarrow> Inl err
      | Inr s1 \<Rightarrow> Inr (ws, s1))"
| "HandleEvent h (JoyDeviceEv devices) (ws, s) =
     (case HandleJoystickEvent (JoyDeviceEv devices) s of
        Inl err \<Rightarrow> Inl err
      | Inr s1 \<Rightarrow> Inr (ws, s1))"
| "HandleEvent h (TextEditingEv str start len) (ws, s) =
     Inr (ws, if record_text_input s
              then s\<lparr>text_input_events := text_input_events s @ [TextEdit str start len]\<rparr>
              else s)"
| "HandleEvent h (TextInputEv str) (ws, s) =
     Inr (ws, if record_text_input s
              then s\<lparr>text_input_events := text_input_events s @ [TextText str]\<rparr>
              else s)"
| "HandleEvent h OtherEv (ws, s) = Inr (ws, s)"

text \<open>
  The loop of lines 126-227 over the events \<^verbatim>\<open>SDL_PollEvent\<close> delivers during the
  call, in their order.
\<close>

fun PollEvents ::
  "input_h \<Rightarrow> SDL_Event list \<Rightarrow> vec2i \<times> InputSystem \<Rightarrow> error + (vec2i \<times> InputSystem)" where
  "PollEvents h [] r = Inr r"
| "PollEvents h (event # events) r =
     (case HandleEvent h event r of
        Inl err \<Rightarrow> Inl err
      | Inr r1 \<Rightarrow> PollEvents h events r1)"

text \<open>
  \<^verbatim>\<open>InputSystem::AdvanceFrame\<close>, lines 87-233, from the reset of the per-frame
  state (line 103) on; \<open>events\<close> are the events SDL holds for this frame.
\<close>

definition InputSystem_AdvanceFrame ::
  "input_h \<Rightarrow> SDL_Event list \<Rightarrow> vec2i \<times> InputSystem \<Rightarrow> error + (vec2i \<times> InputSystem)" where
  "InputSystem_AdvanceFrame h events r =
     (let (window_size, s) = r;
          s1 = s\<lparr>mousewheel_delta := (0, 0),
                 button_map := (\<lambda>k. map_option Button_AdvanceFrame (button_map s k)),
                 pointers := map (\<lambda>p. p\<lparr>mousedelta := (0, 0)\<rparr>) (pointers s),
                 joystick_map := (\<lambda>k. map_option Joystick_AdvanceFrame (joystick_map s k)),
                 gamepad_map := (\<lambda>k. map_option Gamepad_AdvanceFrame (gamepad_map s k))\<rparr>
      in case HandleGamepadEvents h s1 of
           Inl err \<Rightarrow> Inl err
         | Inr s2 \<Rightarrow>
             (let s3 = (if \<not> record_text_input s2 then s2\<lparr>text_input_events := []\<rparr> else s2)
              in case PollEvents h events (window_size, s3) of
                   Inl err \<Rightarrow> Inl err
                 | Inr (window_size1, s4) \<Rightarrow>
                     Inr (window_size1,
                          s4\<lparr>cardboard_input :=
                                CardboardInput_AdvanceFrame (cardboard_input s4)\<rparr>)))"

subsection \<open>Notions the statements use\<close>

text \<open>
  A gamepad is well sized when its button vector has one button per enumerated button:
  \<^verbatim>\<open>GetGamepad\<close> is the only place that builds a gamepad, and nothing resizes the
  vector.
\<close>

definition gamepad_wf :: "Gamepad \<Rightarrow> bool" where
  "gamepad_wf g = (length (gamepad_button_list g) = nat kControlCount)"

definition gamepads_wf :: "(int \<rightharpoonup> Gamepad) \<Rightarrow> bool" where
  "gamepads_wf gm = (\<forall>k g. gm k = Some g \<longrightarrow> gamepad_wf g)"

text \<open>
  The spec's words for the drain, "processes every queued event in FIFO order": the
  events are handled one by one from the front of the list, each on the gamepads the
  one before it left, and the first failure ends the run.
\<close>

definition handle_in_order ::
  "real \<Rightarrow> (int \<rightharpoonup> Gamepad) \<Rightarrow> AndroidInputEvent list \<Rightarrow> error + (int \<rightharpoonup> Gamepad)" where
  "handle_in_order threshold gm evs =
     foldl (\<lambda>r e. case r of Inl err \<Rightarrow> Inl err | Inr m \<Rightarrow> HandleGamepadEvent threshold m e)
       (Inr gm) evs"

text \<open>
  The spec's words for what one event does to one button of its device: key codes "map
  through a fixed lookup table" to a button, which a key down sets and a key up
  releases, "unmapped codes are ignored", and a motion event sets the four directions
  by the deadzone. \<open>event_level\<close> is the level the event gives button \<open>k\<close>, \<open>None\<close>
  when it leaves that button alone.
\<close>

definition event_level :: "real \<Rightarrow> AndroidInputEvent \<Rightarrow> int \<Rightarrow> bool option" where
  "event_level threshold e k =
     (if event_code e = AKEY_EVENT_ACTION_DOWN then
        (if GetGamepadCodeFromJavaKeyCode (control_code e) = k then Some True else None)
      else if event_code e = AKEY_EVENT_ACTION_UP then
        (if GetGamepadCodeFromJavaKeyCode (control_code e) = k then Some False else None)
      else if event_code e = AMOTION_EVENT_ACTION_MOVE then
        (if k = kLeft then Some (event_x e < - threshold)
         else if k = kRight then Some (event_x e > threshold)
         else if k = kUp then Some (event_y e < - threshold)
         else if k = kDown then Some (event_y e > threshold)
         else None)
      else None)"

text \<open>
  Whether button \<open>k\<close> of the gamepad of device \<open>d\<close> is down; a device with no
  gamepad yet has no button down.
\<close>

definition button_level :: "(int \<rightharpoonup> Gamepad) \<Rightarrow> int \<Rightarrow> int \<Rightarrow> bool" where
  "button_level gm d k =
     (case gm d of None \<Rightarrow> False | Some g \<Rightarrow> is_down (gamepad_button_list g ! nat k))"

text \<open>
  The level of button \<open>k\<close> of device \<open>d\<close> after the events \<open>evs\<close>, taken in
  their order from the level it had: each event of the device that sets the button
  overrides what came before it.
\<close>

definition levels_in_order ::
  "real \<Rightarrow> int \<Rightarrow> int \<Rightarrow> bool \<Rightarrow> AndroidInputEvent list \<Rightarrow> bool" where
  "levels_in_order threshold d k level evs =
     foldl (\<lambda>l e. if device_id e = d
                   then (case event_level threshold e k of Some v \<Rightarrow> v | None \<Rightarrow> l)
                   else l) level evs"

text \<open>One call of \<^verbatim>\<open>ReceiveGamepadEvent\<close> per event of \<open>evs\<close>, in their order.\<close>

definition ReceiveAll ::
  "AndroidInputEvent list \<Rightarrow> AndroidInputEvent list \<Rightarrow> AndroidInputEvent list" where
  "ReceiveAll queue evs =
     foldl (\<lambda>q e. ReceiveGamepadEvent q (device_id e) (event_code e) (control_code e)
                     (event_x e) (event_y e)) queue evs"

text \<open>
  The queues a run can hold: the queue starts empty, and only
  \<^verbatim>\<open>ReceiveGamepadEvent\<close> and \<^verbatim>\<open>HandleGamepadEvents\<close> touch it.
\<close>

inductive reachable_queue :: "AndroidInputEvent list \<Rightarrow> bool" where
  initial: "reachable_queue []"
| received: "reachable_queue q \<Longrightarrow> reachable_queue (ReceiveGamepadEvent q d ec cc x y)"
| drained: "reachable_queue q \<Longrightarrow> unhandled_java_input_events s = q \<Longrightarrow>
     HandleGamepadEvents h s = Inr s' \<Longrightarrow> reachable_queue (unhandled_java_input_events s')"

text \<open>
  \<open>settled b b'\<close>: the button \<open>b'\<close> has no edge flag set and is down exactly when
  \<open>b\<close> is.
\<close>

definition settled :: "Button \<Rightarrow> Button \<Rightarrow> bool" where
  "settled b b' = (\<not> went_down b' \<and> \<not> went_up b' \<and> is_down b' = is_down b)"

text \<open>
  \<open>joysticks_kept jm jm'\<close>: every joystick of \<open>jm\<close> is still in \<open>jm'\<close>, with
  no fewer buttons, axes and hats.
\<close>

definition joystick_kept :: "Joystick \<Rightarrow> Joystick \<Rightarrow> bool" where
  "joystick_kept j j' =
     (length (button_list j) \<le> length (button_list j') \<and>
      length (axis_list j) \<le> length (axis_list j') \<and>
      length (hat_list j) \<le> length (hat_list j'))"

definition joysticks_kept :: "(int \<rightharpoonup> Joystick) \<Rightarrow> (int \<rightharpoonup> Joystick) \<Rightarrow> bool" where
  "joysticks_kept jm jm' =
     (\<forall>k j. jm k = Some j \<longrightarrow> (\<exists>j'. jm' k = Some j' \<and> joystick_kept j j'))"

subsection \<open>Concrete inputs\<close>

text \<open>
  An input system with two free pointer slots and nothing else yet; the header
  constants with the first pointer key at 1000 and a deadzone of one half; a gamepad
  motion event far to the left; a touch event of finger 99; a joystick with two
  buttons, the first one held.
\<close>

definition free_pointer :: Pointer where
  "free_pointer = \<lparr>pointer_id = 0, mousepos = (0, 0), mousedelta = (0, 0), used = False\<rparr>"

definition example_system :: InputSystem where
  "example_system =
     \<lparr>exit_requested = False, button_map = Map.empty,
      pointers = [free_pointer, free_pointer],
      mousewheel_delta = (0, 0), joystick_map = Map.empty, gamepad_map = Map.empty,
      unhandled_java_input_events = [],
      cardboard_input = \<lparr>pending_trigger = False, triggered = False\<rparr>,
      record_text_input = False, text_input_events = []\<rparr>"

definition example_header :: input_h where
  "example_header = \<lparr>SDLK_POINTER1 = 1000, kGamepadHatThreshold = 1 / 2\<rparr>"

definition move_left :: AndroidInputEvent where
  "move_left = \<lparr>device_id = 1, event_code = AMOTION_EVENT_ACTION_MOVE, control_code = 0,
                event_x = - 1, event_y = 0\<rparr>"

definition finger_99 :: SDL_TouchFingerEvent where
  "finger_99 = \<lparr>fingerId = 99, finger_x = 1 / 2, finger_y = 1 / 2,
                finger_dx = 0, finger_dy = 0\<rparr>"

definition held_joystick :: Joystick where
  "held_joystick =
     \<lparr>joystick_data = Some 7,
      button_list = [\<lparr>is_down = True, went_down = True, went_up = False\<rparr>, Button_new],
      axis_list = [JoystickAxis_new], hat_list = []\<rparr>"

text \<open>
  A press and a release of button A on device 1, and \<open>n\<close> motion events to the left,
  the \<open>i\<close>-th from device \<open>i\<close>.
\<close>

definition press_A :: AndroidInputEvent where
  "press_A = \<lparr>device_id = 1, event_code = AKEY_EVENT_ACTION_DOWN,
              control_code = AKEYCODE_BUTTON_A, event_x = 0, event_y = 0\<rparr>"

definition release_A :: AndroidInputEvent where
  "release_A = \<lparr>device_id = 1, event_code = AKEY_EVENT_ACTION_UP,
                control_code = AKEYCODE_BUTTON_A, event_x = 0, event_y = 0\<rparr>"

definition moves_of_devices :: "nat \<Rightarrow> AndroidInputEvent list" where
  "moves_of_devices n = map (\<lambda>i. move_left\<lparr>device_id := int i\<rparr>) [0..<n]"

section \<open>Properties\<close>

subsection \<open>Button edges\<close>

text \<open>
  C1. \<^verbatim>\<open>Update(down)\<close> sets \<^verbatim>\<open>went_down\<close> when the button was up and \<^verbatim>\<open>down\<close> is
  true, sets \<^verbatim>\<open>went_up\<close> when it was down and \<^verbatim>\<open>down\<close> is false, and always assigns
  \<^verbatim>\<open>is_down = down\<close>; it sets no flag otherwise and clears none. On a fresh button, \<^verbatim>\<open>Update(true); AdvanceFrame();
  Update(false); AdvanceFrame()\<close> is observed as: went_down, is_down, not went_up;
  then not went_down, is_down; then went_up, not is_down; then no edge flag and
  not is_down.
\<close>

theorem Button_Update_edges:
  "(\<not> is_down b \<and> down \<longrightarrow> went_down (Button_Update b down)) \<and>
   (is_down b \<and> \<not> down \<longrightarrow> went_up (Button_Update b down)) \<and>
   is_down (Button_Update b down) = down \<and>
   went_down (Button_Update b down) = (went_down b \<or> (\<not> is_down b \<and> down)) \<and>
   went_up (Button_Update b down) = (went_up b \<or> (is_down b \<and> \<not> down)) \<and>
   (let b1 = Button_Update Button_new True;
        b2 = Button_AdvanceFrame b1;
        b3 = Button_Update b2 False;
        b4 = Button_AdvanceFrame b3
    in (went_down b1 \<and> is_down b1 \<and> \<not> went_up b1) \<and>
       (\<not> went_down b2 \<and> is_down b2) \<and>
       (went_up b3 \<and> \<not> is_down b3) \<and>
       (\<not> went_down b4 \<and> \<not> went_up b4 \<and> \<not> is_down b4))"
  by (auto simp: Button_Update_def Button_AdvanceFrame_def Button_new_def Let_def)

theorem Button_Update_edges_witness:
  "\<not> is_down Button_new \<and>
   went_down (Button_Update Button_new True) \<and>
   is_down \<lparr>is_down = True, went_down = False, went_up = False\<rparr> \<and>
   went_up (Button_Update \<lparr>is_down = True, went_down = False, went_up = False\<rparr> False)"
  using Button_Update_edges [of Button_new True]
    Button_Update_edges [of "\<lparr>is_down = True, went_down = False, went_up = False\<rparr>" False]
  by (simp add: Button_new_def)

subsection \<open>The Cardboard trigger\<close>

lemma CardboardInput_AdvanceFrame_stuck:
  "pending_trigger c \<Longrightarrow> triggered c \<Longrightarrow> CardboardInput_AdvanceFrame c = c"
  by (simp add: CardboardInput_AdvanceFrame_def)

lemma CardboardInput_AdvanceFrame_stuck_forever:
  "pending_trigger c \<Longrightarrow> triggered c \<Longrightarrow> (CardboardInput_AdvanceFrame ^^ n) c = c"
  by (induction n) (simp_all add: CardboardInput_AdvanceFrame_stuck)

text \<open>
  Where the latch does work: a trigger that arrives while \<^verbatim>\<open>triggered_\<close> is false
  is promoted by the next \<^verbatim>\<open>AdvanceFrame\<close> and gone after the one after it.
\<close>

lemma Cardboard_trigger_one_frame:
  "\<not> triggered c \<Longrightarrow>
   triggered (CardboardInput_AdvanceFrame (OnCardboardTrigger c)) \<and>
   \<not> triggered (CardboardInput_AdvanceFrame (CardboardInput_AdvanceFrame (OnCardboardTrigger c)))"
  by (simp add: CardboardInput_AdvanceFrame_def OnCardboardTrigger_def)

text \<open>
  C2 fails on the code. The claim: after an \<^verbatim>\<open>AdvanceFrame\<close> that follows trigger
  events, \<^verbatim>\<open>triggered_\<close> is true for exactly one frame, false again after the next
  \<^verbatim>\<open>AdvanceFrame\<close>. The code: from a fresh Cardboard input, trigger, frame, trigger,
  frame leaves both flags set, which \<^verbatim>\<open>AdvanceFrame\<close> never changes again; the flag
  is true after every later frame.
\<close>

theorem Cardboard_trigger_stays_set:
  "(let c0 = \<lparr>pending_trigger = False, triggered = False\<rparr>;
        c1 = CardboardInput_AdvanceFrame (OnCardboardTrigger c0);
        c2 = CardboardInput_AdvanceFrame (OnCardboardTrigger c1);
        c3 = CardboardInput_AdvanceFrame c2
    in triggered c1 \<and> triggered c2 \<and> triggered c3 \<and> pending_trigger c3 \<and>
       (\<forall>n. triggered ((CardboardInput_AdvanceFrame ^^ n) c2)))"
  by (simp add: Let_def CardboardInput_AdvanceFrame_def OnCardboardTrigger_def
      CardboardInput_AdvanceFrame_stuck_forever)

subsection \<open>The gamepad key codes\<close>

lemma GetGamepadCodeFromJavaKeyCode_table:
  "GetGamepadCodeFromJavaKeyCode k =
     (if k = AKEYCODE_DPAD_UP then kUp
      else if k = AKEYCODE_DPAD_DOWN then kDown
      else if k = AKEYCODE_DPAD_LEFT then kLeft
      else if k = AKEYCODE_DPAD_RIGHT then kRight
      else if k = AKEYCODE_DPAD_CENTER then kButtonA
      else if k = AKEYCODE_BUTTON_A then kButtonA
      else if k = AKEYCODE_BUTTON_B then kButtonB
      else kInvalid)"
  by (simp add: GetGamepadCodeFromJavaKeyCode_def kControlCount_def kJavaToGamepadMap_def
      AKEYCODE_DPAD_UP_def AKEYCODE_DPAD_DOWN_def AKEYCODE_DPAD_LEFT_def
      AKEYCODE_DPAD_RIGHT_def AKEYCODE_DPAD_CENTER_def AKEYCODE_BUTTON_A_def
      AKEYCODE_BUTTON_B_def AKEYCODE_BUTTON_C_def)

lemma GetGamepadCodeFromJavaKeyCode_range:
  "GetGamepadCodeFromJavaKeyCode k \<noteq> kInvalid \<Longrightarrow>
   0 \<le> GetGamepadCodeFromJavaKeyCode k \<and> GetGamepadCodeFromJavaKeyCode k < kControlCount"
  by (simp add: GetGamepadCodeFromJavaKeyCode_table kInvalid_def kControlCount_def
      kUp_def kDown_def kLeft_def kRight_def kButtonA_def kButtonB_def split: if_splits)

text \<open>The loop never reads past the table: it has more entries than the loop visits.\<close>

lemma kControlCount_within_table: "nat kControlCount \<le> length kJavaToGamepadMap"
  by (simp add: kControlCount_def kJavaToGamepadMap_def)

text \<open>
  C6 fails on the code. The claim: each of the 8 key codes of the table is mapped to
  its gamepad button, \<^verbatim>\<open>AKEYCODE_BUTTON_C\<close> to \<^verbatim>\<open>kButtonC\<close>. The code: the loop
  visits the indices below \<^verbatim>\<open>kControlCount\<close>, the 7 buttons, and the table has 8
  entries, so the last one, \<^verbatim>\<open>{AKEYCODE_BUTTON_C, kButtonC}\<close>, is never compared;
  \<^verbatim>\<open>AKEYCODE_BUTTON_C\<close> gets \<^verbatim>\<open>kInvalid\<close> and a press of button C changes no
  gamepad button.
\<close>

theorem BUTTON_C_is_not_mapped:
  "GetGamepadCodeFromJavaKeyCode AKEYCODE_BUTTON_C = kInvalid \<and>
   kInvalid \<noteq> kButtonC \<and>
   (AKEYCODE_BUTTON_C, kButtonC) = kJavaToGamepadMap ! 7 \<and>
   length kJavaToGamepadMap = 8 \<and> kControlCount = 7 \<and>
   HandleGamepadEvent (1 / 2) [1 \<mapsto> Gamepad_new 1]
     \<lparr>device_id = 1, event_code = AKEY_EVENT_ACTION_DOWN,
      control_code = AKEYCODE_BUTTON_C, event_x = 0, event_y = 0\<rparr>
   = Inr [1 \<mapsto> Gamepad_new 1]"
  by (simp add: GetGamepadCodeFromJavaKeyCode_table HandleGamepadEvent_def GetGamepad_def
      kJavaToGamepadMap_def AKEYCODE_DPAD_UP_def AKEYCODE_DPAD_DOWN_def AKEYCODE_DPAD_LEFT_def
      AKEYCODE_DPAD_RIGHT_def AKEYCODE_DPAD_CENTER_def AKEYCODE_BUTTON_A_def
      AKEYCODE_BUTTON_B_def AKEYCODE_BUTTON_C_def kInvalid_def kButtonC_def
      kControlCount_def)

subsection \<open>The queue of gamepad events\<close>

lemma Gamepad_new_wf: "gamepad_wf (Gamepad_new i)"
  by (simp add: gamepad_wf_def Gamepad_new_def)

lemma Gamepad_GetButton_Update_wf:
  assumes "gamepad_wf g" "0 \<le> i" "i < kControlCount"
  shows "\<exists>g'. Gamepad_GetButton_Update g i d = Inr g' \<and> gamepad_wf g'"
  using assms
  by (simp add: Gamepad_GetButton_Update_def Gamepad_GetButton_def gamepad_wf_def)

lemma GetGamepad_wf:
  assumes "gamepads_wf gm" "GetGamepad i gm = (g, gm1)"
  shows "gamepad_wf g \<and> gamepads_wf gm1 \<and> gm1 i = Some g"
  using assms
  by (auto simp: GetGamepad_def gamepads_wf_def Gamepad_new_wf split: option.splits if_splits)

lemma gamepads_wf_upd: "gamepads_wf gm \<Longrightarrow> gamepad_wf g \<Longrightarrow> gamepads_wf (gm(i \<mapsto> g))"
  by (auto simp: gamepads_wf_def split: if_splits)

text \<open>On well sized gamepads no event fails, and the gamepads stay well sized.\<close>

lemma HandleGamepadEvent_wf:
  assumes "gamepads_wf gm"
  shows "\<exists>gm'. HandleGamepadEvent thr gm e = Inr gm' \<and> gamepads_wf gm'"
proof -
  obtain g gm1 where G: "GetGamepad (device_id e) gm = (g, gm1)"
    by (cases "GetGamepad (device_id e) gm")
  from GetGamepad_wf [OF assms G] have wg: "gamepad_wf g" and wm: "gamepads_wf gm1"
    by simp_all
  have key: "\<exists>gm'. (case Gamepad_GetButton_Update g k d of
                       Inl err \<Rightarrow> Inl err
                     | Inr g' \<Rightarrow> Inr (gm1(device_id e \<mapsto> g'))) = Inr gm' \<and> gamepads_wf gm'"
    if "k \<noteq> kInvalid" and r: "0 \<le> k \<and> k < kControlCount" for d k
  proof -
    obtain g' where "Gamepad_GetButton_Update g k d = Inr g'" "gamepad_wf g'"
      using Gamepad_GetButton_Update_wf [OF wg, of k d] r by blast
    then show ?thesis using gamepads_wf_upd [OF wm] by simp
  qed
  have move: "\<exists>gm'. (case Gamepad_GetButton_Update g kLeft l of
              Inl err \<Rightarrow> Inl err
            | Inr g1 \<Rightarrow>
          (case Gamepad_GetButton_Update g1 kRight r of
              Inl err \<Rightarrow> Inl err
            | Inr g2 \<Rightarrow>
          (case Gamepad_GetButton_Update g2 kUp u of
              Inl err \<Rightarrow> Inl err
            | Inr g3 \<Rightarrow>
          (case Gamepad_GetButton_Update g3 kDown d of
              Inl err \<Rightarrow> Inl err
            | Inr g4 \<Rightarrow> Inr (gm1(device_id e \<mapsto> g4)))))) = Inr gm' \<and> gamepads_wf gm'"
    for l r u d
  proof -
    obtain g1 where 1: "Gamepad_GetButton_Update g kLeft l = Inr g1" "gamepad_wf g1"
      using Gamepad_GetButton_Update_wf [OF wg, of kLeft l]
      by (auto simp: kLeft_def kControlCount_def)
    obtain g2 where 2: "Gamepad_GetButton_Update g1 kRight r = Inr g2" "gamepad_wf g2"
      using Gamepad_GetButton_Update_wf [OF 1(2), of kRight r]
      by (auto simp: kRight_def kControlCount_def)
    obtain g3 where 3: "Gamepad_GetButton_Update g2 kUp u = Inr g3" "gamepad_wf g3"
      using Gamepad_GetButton_Update_wf [OF 2(2), of kUp u]
      by (auto simp: kUp_def kControlCount_def)
    obtain g4 where 4: "Gamepad_GetButton_Update g3 kDown d = Inr g4" "gamepad_wf g4"
      using Gamepad_GetButton_Update_wf [OF 3(2), of kDown d]
      by (auto simp: kDown_def kControlCount_def)
    show ?thesis using 1 2 3 4 gamepads_wf_upd [OF wm] by simp
  qed
  show ?thesis
    unfolding HandleGamepadEvent_def G
    using key GetGamepadCodeFromJavaKeyCode_range wm move by (simp add: Let_def)
qed

lemma HandleGamepadEvents_loop_wf:
  "gamepads_wf gm \<Longrightarrow>
   \<exists>gm'. HandleGamepadEvents_loop thr gm q = Inr (gm', []) \<and> gamepads_wf gm'"
proof (induction q arbitrary: gm)
  case Nil
  then show ?case by simp
next
  case (Cons e q)
  obtain gm1 where "HandleGamepadEvent thr gm e = Inr gm1" "gamepads_wf gm1"
    using HandleGamepadEvent_wf [OF Cons.prems] by blast
  then show ?case using Cons.IH [of gm1] by simp
qed

lemma foldl_Inl:
  "foldl (\<lambda>r e. case r of Inl err \<Rightarrow> Inl err | Inr m \<Rightarrow> f m e) (Inl x) evs = Inl x"
  by (induction evs) simp_all

text \<open>The loop is the in-order run, whatever the gamepads are.\<close>

lemma HandleGamepadEvents_loop_in_order:
  "HandleGamepadEvents_loop thr gm q =
     (case handle_in_order thr gm q of Inl err \<Rightarrow> Inl err | Inr m \<Rightarrow> Inr (m, []))"
  unfolding handle_in_order_def
proof (induction q arbitrary: gm)
  case Nil
  then show ?case by simp
next
  case (Cons e q)
  then show ?case by (cases "HandleGamepadEvent thr gm e") (simp_all add: foldl_Inl)
qed

lemma HandleGamepadEvents_in_order:
  "HandleGamepadEvents h s =
     (case handle_in_order (kGamepadHatThreshold h) (gamepad_map s)
             (unhandled_java_input_events s) of
        Inl err \<Rightarrow> Inl err
      | Inr gm \<Rightarrow> Inr (s\<lparr>gamepad_map := gm, unhandled_java_input_events := []\<rparr>))"
  by (simp add: HandleGamepadEvents_def HandleGamepadEvents_loop_in_order split: sum.splits)

lemma handle_in_order_wf:
  "gamepads_wf gm \<Longrightarrow> \<exists>gm'. handle_in_order thr gm q = Inr gm' \<and> gamepads_wf gm'"
  using HandleGamepadEvents_loop_wf [of gm thr q]
  by (auto simp: HandleGamepadEvents_loop_in_order split: sum.splits)

lemma ReceiveGamepadEvent_fields:
  "ReceiveGamepadEvent q (device_id e) (event_code e) (control_code e) (event_x e) (event_y e) =
     (if length q < kMaxAndroidEventsPerFrame then q @ [e] else q)"
  by (simp add: ReceiveGamepadEvent_def)

lemma ReceiveAll_take:
  "length q \<le> kMaxAndroidEventsPerFrame \<Longrightarrow>
   ReceiveAll q evs = q @ take (kMaxAndroidEventsPerFrame - length q) evs"
  unfolding ReceiveAll_def
proof (induction evs arbitrary: q)
  case Nil
  then show ?case by simp
next
  case (Cons e evs)
  show ?case
  proof (cases "length q < kMaxAndroidEventsPerFrame")
    case True
    then show ?thesis using Cons.IH [of "q @ [e]"]
      by (simp add: ReceiveGamepadEvent_fields take_Cons')
  next
    case False
    then show ?thesis using Cons.IH [of q] Cons.prems
      by (simp add: ReceiveGamepadEvent_fields)
  qed
qed

lemma reachable_queue_bounded:
  "reachable_queue q \<Longrightarrow> length q \<le> kMaxAndroidEventsPerFrame"
proof (induction rule: reachable_queue.induct)
  case initial
  then show ?case by simp
next
  case (received q d ec cc x y)
  then show ?case by (simp add: ReceiveGamepadEvent_def)
next
  case (drained q s h s')
  then show ?case by (auto simp: HandleGamepadEvents_def split: sum.splits)
qed

text \<open>
  What handling one event does: the device of the event has a gamepad afterwards, no
  other device is touched, and each button of the device has the level the event gives
  it, or the level it had.
\<close>

lemma HandleGamepadEvent_dom:
  "HandleGamepadEvent thr gm e = Inr gm' \<Longrightarrow> dom gm' = insert (device_id e) (dom gm)"
  unfolding HandleGamepadEvent_def GetGamepad_def
  by (auto simp: Let_def split: option.splits if_splits sum.splits)

lemma HandleGamepadEvent_other:
  "HandleGamepadEvent thr gm e = Inr gm' \<Longrightarrow> d \<noteq> device_id e \<Longrightarrow> gm' d = gm d"
  unfolding HandleGamepadEvent_def GetGamepad_def
  by (auto simp: Let_def split: option.splits if_splits sum.splits)

lemma Gamepad_GetButton_Update_level:
  assumes "gamepad_wf g" "0 \<le> i" "i < kControlCount" "0 \<le> k" "k < kControlCount"
  shows "\<exists>g'. Gamepad_GetButton_Update g i v = Inr g' \<and> gamepad_wf g' \<and>
           controller_id g' = controller_id g \<and>
           is_down (gamepad_button_list g' ! nat k) =
             (if i = k then v else is_down (gamepad_button_list g ! nat k))"
  using assms
  by (auto simp: Gamepad_GetButton_Update_def Gamepad_GetButton_def gamepad_wf_def
      Button_Update_def Let_def nth_list_update)

lemma GetGamepad_level:
  assumes "GetGamepad d gm = (g, gm1)" "0 \<le> k" "k < kControlCount"
  shows "is_down (gamepad_button_list g ! nat k) = button_level gm d k"
  using assms
  by (auto simp: GetGamepad_def button_level_def Gamepad_new_def Button_new_def kControlCount_def
      split: option.splits)

lemma HandleGamepadEvent_level:
  assumes wf: "gamepads_wf gm" and k: "0 \<le> k" "k < kControlCount"
    and H: "HandleGamepadEvent thr gm e = Inr gm'"
  shows "button_level gm' d k =
     (if device_id e = d
      then (case event_level thr e k of Some v \<Rightarrow> v | None \<Rightarrow> button_level gm d k)
      else button_level gm d k)"
proof (cases "device_id e = d")
  case False
  then show ?thesis
    using HandleGamepadEvent_other [OF H, of d] by (simp add: button_level_def)
next
  case True
  obtain g gm1 where G: "GetGamepad (device_id e) gm = (g, gm1)"
    by (cases "GetGamepad (device_id e) gm")
  from GetGamepad_wf [OF wf G] have wg: "gamepad_wf g" and g1: "gm1 (device_id e) = Some g"
    by simp_all
  have l0: "is_down (gamepad_button_list g ! nat k) = button_level gm d k"
    using GetGamepad_level [OF G k] True by simp
  have lev: "button_level (gm1(device_id e \<mapsto> g')) d k = is_down (gamepad_button_list g' ! nat k)"
    for g' using True by (simp add: button_level_def)
  have lev1: "button_level gm1 d k = button_level gm d k"
    using True g1 l0 by (simp add: button_level_def)
  consider (down) "event_code e = AKEY_EVENT_ACTION_DOWN"
    | (up) "event_code e = AKEY_EVENT_ACTION_UP"
    | (move) "event_code e = AMOTION_EVENT_ACTION_MOVE"
    | (other) "event_code e \<noteq> AKEY_EVENT_ACTION_DOWN" "event_code e \<noteq> AKEY_EVENT_ACTION_UP"
        "event_code e \<noteq> AMOTION_EVENT_ACTION_MOVE"
    by blast
  then show ?thesis
  proof cases
    case down
    let ?c = "GetGamepadCodeFromJavaKeyCode (control_code e)"
    show ?thesis
    proof (cases "?c = kInvalid")
      case inv: True
      then have nk: "?c \<noteq> k" using k by (auto simp: kInvalid_def)
      have "gm' = gm1" using H inv down
        by (simp add: HandleGamepadEvent_def G)
      then show ?thesis using nk down True lev1
        by (simp add: event_level_def)
    next
      case ok: False
      from GetGamepadCodeFromJavaKeyCode_range [OF ok]
      obtain g' where "Gamepad_GetButton_Update g ?c True = Inr g'"
        "is_down (gamepad_button_list g' ! nat k) =
             (if ?c = k then True else is_down (gamepad_button_list g ! nat k))"
        using Gamepad_GetButton_Update_level [OF wg _ _ k, of ?c True] by blast
      moreover from this have "gm' = gm1(device_id e \<mapsto> g')" using H ok down
        by (simp add: HandleGamepadEvent_def G)
      ultimately show ?thesis using down True l0 lev [of g']
        by (auto simp: event_level_def)
    qed
  next
    case up
    have ne: "AKEY_EVENT_ACTION_UP \<noteq> AKEY_EVENT_ACTION_DOWN"
      by (simp add: AKEY_EVENT_ACTION_DOWN_def AKEY_EVENT_ACTION_UP_def)
    let ?c = "GetGamepadCodeFromJavaKeyCode (control_code e)"
    show ?thesis
    proof (cases "?c = kInvalid")
      case inv: True
      then have nk: "?c \<noteq> k" using k by (auto simp: kInvalid_def)
      have "gm' = gm1" using H inv up ne
        by (simp add: HandleGamepadEvent_def G)
      then show ?thesis using nk up ne True lev1
        by (simp add: event_level_def)
    next
      case ok: False
      from GetGamepadCodeFromJavaKeyCode_range [OF ok]
      obtain g' where "Gamepad_GetButton_Update g ?c False = Inr g'"
        "is_down (gamepad_button_list g' ! nat k) =
             (if ?c = k then False else is_down (gamepad_button_list g ! nat k))"
        using Gamepad_GetButton_Update_level [OF wg _ _ k, of ?c False] by blast
      moreover from this have "gm' = gm1(device_id e \<mapsto> g')" using H ok up ne
        by (simp add: HandleGamepadEvent_def G)
      ultimately show ?thesis using up ne True l0 lev [of g']
        by (auto simp: event_level_def)
    qed
  next
    case move
    have ne: "AMOTION_EVENT_ACTION_MOVE \<noteq> AKEY_EVENT_ACTION_DOWN"
      "AMOTION_EVENT_ACTION_MOVE \<noteq> AKEY_EVENT_ACTION_UP"
      by (simp_all add: AMOTION_EVENT_ACTION_MOVE_def AKEY_EVENT_ACTION_DOWN_def
          AKEY_EVENT_ACTION_UP_def)
    have r: "0 \<le> kLeft" "kLeft < kControlCount" "0 \<le> kRight" "kRight < kControlCount"
      "0 \<le> kUp" "kUp < kControlCount" "0 \<le> kDown" "kDown < kControlCount"
      by (simp_all add: kLeft_def kRight_def kUp_def kDown_def kControlCount_def)
    have distinct: "kLeft \<noteq> kRight" "kLeft \<noteq> kUp" "kLeft \<noteq> kDown" "kRight \<noteq> kUp"
      "kRight \<noteq> kDown" "kUp \<noteq> kDown"
      by (simp_all add: kLeft_def kRight_def kUp_def kDown_def)
    obtain g1 where 1: "Gamepad_GetButton_Update g kLeft (event_x e < - thr) = Inr g1"
      "gamepad_wf g1"
      "is_down (gamepad_button_list g1 ! nat k) =
         (if kLeft = k then event_x e < - thr else is_down (gamepad_button_list g ! nat k))"
      using Gamepad_GetButton_Update_level [OF wg r(1,2) k] by blast
    obtain g2 where 2: "Gamepad_GetButton_Update g1 kRight (event_x e > thr) = Inr g2"
      "gamepad_wf g2"
      "is_down (gamepad_button_list g2 ! nat k) =
         (if kRight = k then event_x e > thr else is_down (gamepad_button_list g1 ! nat k))"
      using Gamepad_GetButton_Update_level [OF 1(2) r(3,4) k] by blast
    obtain g3 where 3: "Gamepad_GetButton_Update g2 kUp (event_y e < - thr) = Inr g3"
      "gamepad_wf g3"
      "is_down (gamepad_button_list g3 ! nat k) =
         (if kUp = k then event_y e < - thr else is_down (gamepad_button_list g2 ! nat k))"
      using Gamepad_GetButton_Update_level [OF 2(2) r(5,6) k] by blast
    obtain g4 where 4: "Gamepad_GetButton_Update g3 kDown (event_y e > thr) = Inr g4"
      "gamepad_wf g4"
      "is_down (gamepad_button_list g4 ! nat k) =
         (if kDown = k then event_y e > thr else is_down (gamepad_button_list g3 ! nat k))"
      using Gamepad_GetButton_Update_level [OF 3(2) r(7,8) k] by blast
    have "gm' = gm1(device_id e \<mapsto> g4)"
      using H move ne 1(1) 2(1) 3(1) 4(1) by (simp add: HandleGamepadEvent_def G Let_def)
    then show ?thesis
      using True move ne lev [of g4] 1(3) 2(3) 3(3) 4(3) l0 distinct
      by (auto simp: event_level_def)
  next
    case other
    have "gm' = gm1" using H other
      by (simp add: HandleGamepadEvent_def G)
    then show ?thesis using other True lev1
      by (simp add: event_level_def)
  qed
qed

text \<open>The same over a whole queue, event by event from the front.\<close>

lemma handle_in_order_Cons:
  "handle_in_order thr gm (e # q) =
     (case HandleGamepadEvent thr gm e of
        Inl err \<Rightarrow> Inl err
      | Inr gm1 \<Rightarrow> handle_in_order thr gm1 q)"
  by (simp add: handle_in_order_def foldl_Inl split: sum.splits)

lemma levels_in_order_snoc:
  "levels_in_order thr d k l (q @ [e]) =
     (if device_id e = d
      then (case event_level thr e k of Some v \<Rightarrow> v | None \<Rightarrow> levels_in_order thr d k l q)
      else levels_in_order thr d k l q)"
  by (simp only: levels_in_order_def foldl_append foldl_Cons foldl_Nil)

lemma handle_in_order_effects:
  "gamepads_wf gm \<Longrightarrow> handle_in_order thr gm q = Inr gm' \<Longrightarrow>
   dom gm' = dom gm \<union> device_id ` set q \<and>
   (\<forall>dev. dev \<notin> device_id ` set q \<longrightarrow> gm' dev = gm dev) \<and>
   (\<forall>dev k. 0 \<le> k \<and> k < kControlCount \<longrightarrow>
      button_level gm' dev k = levels_in_order thr dev k (button_level gm dev k) q)"
proof (induction q arbitrary: gm)
  case Nil
  then show ?case by (simp add: handle_in_order_def levels_in_order_def)
next
  case (Cons e q)
  obtain gm1 where 1: "HandleGamepadEvent thr gm e = Inr gm1" and w1: "gamepads_wf gm1"
    using HandleGamepadEvent_wf [OF Cons.prems(1)] by blast
  then have 2: "handle_in_order thr gm1 q = Inr gm'"
    using Cons.prems(2) by (simp add: handle_in_order_Cons)
  note IH = Cons.IH [OF w1 2]
  have d: "dom gm' = dom gm \<union> device_id ` set (e # q)"
    using IH HandleGamepadEvent_dom [OF 1] by auto
  have o: "gm' dev = gm dev" if "dev \<notin> device_id ` set (e # q)" for dev
    using IH HandleGamepadEvent_other [OF 1, of dev] that by auto
  have l: "button_level gm' dev k = levels_in_order thr dev k (button_level gm dev k) (e # q)"
    if "0 \<le> k \<and> k < kControlCount" for dev k
    using IH that HandleGamepadEvent_level [OF Cons.prems(1) _ _ 1, of k dev]
    by (simp add: levels_in_order_def)
  show ?case using d o l by blast
qed

lemma card_dom_distinct:
  assumes "dom gm = device_id ` set (take n evs)" "distinct (map device_id evs)" "n \<le> length evs"
  shows "card (dom gm) = n"
proof -
  have "distinct (map device_id (take n evs))"
    using assms(2) by (simp add: take_map [symmetric] distinct_take del: take_map)
  then have "card (set (map device_id (take n evs))) = length (map device_id (take n evs))"
    by (rule distinct_card)
  then show ?thesis using assms(1,3) by simp
qed

text \<open>
  C3. The queue of pending gamepad events never holds more than
  \<^verbatim>\<open>kMaxAndroidEventsPerFrame\<close> = 100 events; \<^verbatim>\<open>ReceiveGamepadEvent\<close> on a queue of
  100 leaves it as it is; one \<^verbatim>\<open>HandleGamepadEvents\<close> handles every queued event in
  FIFO order and leaves the queue empty: afterwards exactly the devices of the queued
  events have gained a gamepad, no other gamepad has changed, and every button is at
  the level the events of its device give it when taken in queue order, the last one
  that sets the button deciding. So of 100 + 5 events pushed onto the empty queue
  before one drain, the first 100 are queued and handled and 5 are dropped: the drain
  has the effects of the first 100 events alone, and when the 105 events come from 105
  different devices and no gamepad existed before, exactly 100 gamepads exist after it.
\<close>

theorem gamepad_queue_bounded_and_drained:
  "(reachable_queue q \<longrightarrow> length q \<le> kMaxAndroidEventsPerFrame) \<and>
   (length q = kMaxAndroidEventsPerFrame \<longrightarrow> ReceiveGamepadEvent q d ec cc x y = q) \<and>
   (gamepads_wf (gamepad_map s) \<longrightarrow>
      (\<exists>gm. handle_in_order (kGamepadHatThreshold h) (gamepad_map s)
              (unhandled_java_input_events s) = Inr gm \<and>
            HandleGamepadEvents h s =
              Inr (s\<lparr>gamepad_map := gm, unhandled_java_input_events := []\<rparr>) \<and>
            dom gm = dom (gamepad_map s) \<union> device_id ` set (unhandled_java_input_events s) \<and>
            (\<forall>dev. dev \<notin> device_id ` set (unhandled_java_input_events s) \<longrightarrow>
               gm dev = gamepad_map s dev) \<and>
            (\<forall>dev k. 0 \<le> k \<and> k < kControlCount \<longrightarrow>
               button_level gm dev k =
                 levels_in_order (kGamepadHatThreshold h) dev k
                   (button_level (gamepad_map s) dev k) (unhandled_java_input_events s)))) \<and>
   (length evs = kMaxAndroidEventsPerFrame + 5 \<longrightarrow>
      ReceiveAll [] evs = take kMaxAndroidEventsPerFrame evs \<and>
      length (ReceiveAll [] evs) = kMaxAndroidEventsPerFrame \<and>
      length evs - length (ReceiveAll [] evs) = 5) \<and>
   (length evs = kMaxAndroidEventsPerFrame + 5 \<and> gamepads_wf (gamepad_map s) \<and>
    unhandled_java_input_events s = ReceiveAll [] evs \<longrightarrow>
      (\<exists>gm. handle_in_order (kGamepadHatThreshold h) (gamepad_map s)
              (take kMaxAndroidEventsPerFrame evs) = Inr gm \<and>
            HandleGamepadEvents h s =
              Inr (s\<lparr>gamepad_map := gm, unhandled_java_input_events := []\<rparr>) \<and>
            dom gm = dom (gamepad_map s) \<union>
                     device_id ` set (take kMaxAndroidEventsPerFrame evs) \<and>
            (\<forall>dev. dev \<notin> device_id ` set (take kMaxAndroidEventsPerFrame evs) \<longrightarrow>
               gm dev = gamepad_map s dev) \<and>
            (\<forall>dev k. 0 \<le> k \<and> k < kControlCount \<longrightarrow>
               button_level gm dev k =
                 levels_in_order (kGamepadHatThreshold h) dev k
                   (button_level (gamepad_map s) dev k)
                   (take kMaxAndroidEventsPerFrame evs)) \<and>
            (gamepad_map s = Map.empty \<and> distinct (map device_id evs) \<longrightarrow>
               card (dom gm) = kMaxAndroidEventsPerFrame)))"
proof -
  have bound: "length q \<le> kMaxAndroidEventsPerFrame" if "reachable_queue q"
    using that by (rule reachable_queue_bounded)
  have full: "ReceiveGamepadEvent q d ec cc x y = q" if "length q = kMaxAndroidEventsPerFrame"
    using that by (simp add: ReceiveGamepadEvent_def)
  have drain: "\<exists>gm. handle_in_order (kGamepadHatThreshold h) (gamepad_map s)
              (unhandled_java_input_events s) = Inr gm \<and>
            HandleGamepadEvents h s =
              Inr (s\<lparr>gamepad_map := gm, unhandled_java_input_events := []\<rparr>) \<and>
            dom gm = dom (gamepad_map s) \<union> device_id ` set (unhandled_java_input_events s) \<and>
            (\<forall>dev. dev \<notin> device_id ` set (unhandled_java_input_events s) \<longrightarrow>
               gm dev = gamepad_map s dev) \<and>
            (\<forall>dev k. 0 \<le> k \<and> k < kControlCount \<longrightarrow>
               button_level gm dev k =
                 levels_in_order (kGamepadHatThreshold h) dev k
                   (button_level (gamepad_map s) dev k) (unhandled_java_input_events s))"
    if wf: "gamepads_wf (gamepad_map s)"
  proof -
    obtain gm where gm: "handle_in_order (kGamepadHatThreshold h) (gamepad_map s)
              (unhandled_java_input_events s) = Inr gm"
      using handle_in_order_wf [OF wf] by blast
    then have "HandleGamepadEvents h s =
        Inr (s\<lparr>gamepad_map := gm, unhandled_java_input_events := []\<rparr>)"
      by (simp add: HandleGamepadEvents_in_order)
    with gm handle_in_order_effects [OF wf gm] show ?thesis
      by blast
  qed
  have pushed: "ReceiveAll [] evs = take kMaxAndroidEventsPerFrame evs"
    using ReceiveAll_take [of "[]" evs] by simp
  have kept: "length (ReceiveAll [] evs) = kMaxAndroidEventsPerFrame"
    and dropped: "length evs - length (ReceiveAll [] evs) = 5"
    if "length evs = kMaxAndroidEventsPerFrame + 5"
    using that by (simp_all add: pushed)
  have both: "\<exists>gm. handle_in_order (kGamepadHatThreshold h) (gamepad_map s)
              (take kMaxAndroidEventsPerFrame evs) = Inr gm \<and>
            HandleGamepadEvents h s =
              Inr (s\<lparr>gamepad_map := gm, unhandled_java_input_events := []\<rparr>) \<and>
            dom gm = dom (gamepad_map s) \<union>
                     device_id ` set (take kMaxAndroidEventsPerFrame evs) \<and>
            (\<forall>dev. dev \<notin> device_id ` set (take kMaxAndroidEventsPerFrame evs) \<longrightarrow>
               gm dev = gamepad_map s dev) \<and>
            (\<forall>dev k. 0 \<le> k \<and> k < kControlCount \<longrightarrow>
               button_level gm dev k =
                 levels_in_order (kGamepadHatThreshold h) dev k
                   (button_level (gamepad_map s) dev k)
                   (take kMaxAndroidEventsPerFrame evs)) \<and>
            (gamepad_map s = Map.empty \<and> distinct (map device_id evs) \<longrightarrow>
               card (dom gm) = kMaxAndroidEventsPerFrame)"
    if a: "length evs = kMaxAndroidEventsPerFrame + 5 \<and> gamepads_wf (gamepad_map s) \<and>
       unhandled_java_input_events s = ReceiveAll [] evs"
  proof -
    from a have qs: "unhandled_java_input_events s = take kMaxAndroidEventsPerFrame evs"
      by (simp add: pushed)
    from a drain obtain gm where gm:
      "handle_in_order (kGamepadHatThreshold h) (gamepad_map s)
              (take kMaxAndroidEventsPerFrame evs) = Inr gm"
      "HandleGamepadEvents h s =
              Inr (s\<lparr>gamepad_map := gm, unhandled_java_input_events := []\<rparr>)"
      "dom gm = dom (gamepad_map s) \<union> device_id ` set (take kMaxAndroidEventsPerFrame evs)"
      "\<forall>dev. dev \<notin> device_id ` set (take kMaxAndroidEventsPerFrame evs) \<longrightarrow>
               gm dev = gamepad_map s dev"
      "\<forall>dev k. 0 \<le> k \<and> k < kControlCount \<longrightarrow>
               button_level gm dev k =
                 levels_in_order (kGamepadHatThreshold h) dev k
                   (button_level (gamepad_map s) dev k)
                   (take kMaxAndroidEventsPerFrame evs)"
      unfolding qs by blast
    have "card (dom gm) = kMaxAndroidEventsPerFrame"
      if "gamepad_map s = Map.empty \<and> distinct (map device_id evs)"
      using card_dom_distinct [of gm kMaxAndroidEventsPerFrame evs] gm(3) that a by simp
    with gm show ?thesis
      by blast
  qed
  show ?thesis
    using bound full drain pushed kept dropped both by blast
qed

theorem gamepad_queue_bounded_and_drained_witness:
  "reachable_queue (ReceiveGamepadEvent [] 1 2 0 (- 1) 0) \<and>
   length (ReceiveGamepadEvent [] 1 2 0 (- 1) 0) \<le> kMaxAndroidEventsPerFrame \<and>
   length (replicate 100 move_left) = kMaxAndroidEventsPerFrame \<and>
   ReceiveGamepadEvent (replicate 100 move_left) 1 2 0 (- 1) 0 = replicate 100 move_left \<and>
   gamepads_wf (gamepad_map example_system) \<and>
   (\<exists>gm. HandleGamepadEvents example_header
            (example_system\<lparr>unhandled_java_input_events := [press_A, release_A]\<rparr>) =
          Inr (example_system\<lparr>gamepad_map := gm\<rparr>) \<and>
        dom gm = {1} \<and> \<not> button_level gm 1 kButtonA) \<and>
   (\<exists>gm. HandleGamepadEvents example_header
            (example_system\<lparr>unhandled_java_input_events := [release_A, press_A]\<rparr>) =
          Inr (example_system\<lparr>gamepad_map := gm\<rparr>) \<and>
        dom gm = {1} \<and> button_level gm 1 kButtonA) \<and>
   length (moves_of_devices 105) = kMaxAndroidEventsPerFrame + 5 \<and>
   distinct (map device_id (moves_of_devices 105)) \<and>
   ReceiveAll [] (moves_of_devices 105) = moves_of_devices 100 \<and>
   (\<exists>gm. HandleGamepadEvents example_header
            (example_system\<lparr>unhandled_java_input_events :=
               ReceiveAll [] (moves_of_devices 105)\<rparr>) =
          Inr (example_system\<lparr>gamepad_map := gm\<rparr>) \<and>
        card (dom gm) = 100 \<and> gm 99 \<noteq> None \<and> button_level gm 99 kLeft \<and>
        gm 100 = None \<and> gm 104 = None)"
proof -
  let ?q1 = "ReceiveGamepadEvent [] 1 2 0 (- 1) 0"
  let ?full = "replicate 100 move_left"
  let ?evs = "moves_of_devices 105"
  let ?s = "example_system\<lparr>unhandled_java_input_events := ReceiveAll [] ?evs\<rparr>"
  let ?s1 = "example_system\<lparr>unhandled_java_input_events := [press_A, release_A]\<rparr>"
  let ?s2 = "example_system\<lparr>unhandled_java_input_events := [release_A, press_A]\<rparr>"
  have r: "reachable_queue ?q1"
    by (rule reachable_queue.received [OF reachable_queue.initial])
  have f: "length ?full = kMaxAndroidEventsPerFrame"
    by (simp add: kMaxAndroidEventsPerFrame_def)
  have w: "gamepads_wf (gamepad_map ?s)" "gamepads_wf (gamepad_map example_system)"
    "gamepads_wf (gamepad_map ?s1)" "gamepads_wf (gamepad_map ?s2)"
    by (simp_all add: gamepads_wf_def example_system_def)
  have e: "gamepad_map ?s = Map.empty" "gamepad_map ?s1 = Map.empty"
    "gamepad_map ?s2 = Map.empty"
    by (simp_all add: example_system_def)
  have c: "?s\<lparr>unhandled_java_input_events := []\<rparr> = example_system"
    "?s1\<lparr>unhandled_java_input_events := []\<rparr> = example_system"
    "?s2\<lparr>unhandled_java_input_events := []\<rparr> = example_system"
    by (simp_all add: example_system_def)
  have thr: "kGamepadHatThreshold example_header = 1 / 2"
    by (simp add: example_header_def)
  have kA: "0 \<le> kButtonA \<and> kButtonA < kControlCount" "0 \<le> kLeft \<and> kLeft < kControlCount"
    by (simp_all add: kButtonA_def kLeft_def kControlCount_def)
  have n: "length ?evs = kMaxAndroidEventsPerFrame + 5"
    by (simp add: kMaxAndroidEventsPerFrame_def moves_of_devices_def)
  have dist: "distinct (map device_id ?evs)"
    by (simp add: moves_of_devices_def distinct_map o_def inj_on_def)
  have t: "take kMaxAndroidEventsPerFrame ?evs = moves_of_devices 100"
    by (simp add: kMaxAndroidEventsPerFrame_def moves_of_devices_def take_map)
  have devs: "device_id ` set (moves_of_devices 100) = int ` {0..<100}"
    by (simp add: moves_of_devices_def image_image)
  have in99: "(99 :: int) \<in> int ` {0..<100}"
    by (rule image_eqI [of _ _ 99]) simp_all
  have out: "(100 :: int) \<notin> int ` {0..<100}" "(104 :: int) \<notin> int ` {0..<100}"
    by auto
  have last99: "moves_of_devices 100 = moves_of_devices 99 @ [move_left\<lparr>device_id := 99\<rparr>]"
    using upt_Suc_append [of 0 99] by (simp add: moves_of_devices_def)
  have lev99: "levels_in_order (1 / 2) 99 kLeft False (moves_of_devices 100)"
    unfolding last99 levels_in_order_snoc
    by (simp add: event_level_def move_left_def AMOTION_EVENT_ACTION_MOVE_def
        AKEY_EVENT_ACTION_DOWN_def AKEY_EVENT_ACTION_UP_def)
  have ord1: "\<not> levels_in_order (1 / 2) 1 kButtonA False [press_A, release_A]"
    and ord2: "levels_in_order (1 / 2) 1 kButtonA False [release_A, press_A]"
    by (simp_all add: levels_in_order_def event_level_def press_A_def release_A_def
        GetGamepadCodeFromJavaKeyCode_table AKEY_EVENT_ACTION_DOWN_def AKEY_EVENT_ACTION_UP_def
        AKEYCODE_DPAD_UP_def AKEYCODE_DPAD_DOWN_def AKEYCODE_DPAD_LEFT_def
        AKEYCODE_DPAD_RIGHT_def AKEYCODE_DPAD_CENTER_def AKEYCODE_BUTTON_A_def)
  have dev1: "device_id ` set [press_A, release_A] = {1}"
    "device_id ` set [release_A, press_A] = {1}"
    by (simp_all add: press_A_def release_A_def)
  note a = gamepad_queue_bounded_and_drained [of ?q1 1 2 0 "- 1" 0 ?s example_header ?evs]
  note b = gamepad_queue_bounded_and_drained [of ?full 1 2 0 "- 1" 0 ?s1 example_header ?evs]
  note b2 = gamepad_queue_bounded_and_drained [of ?full 1 2 0 "- 1" 0 ?s2 example_header ?evs]
  have 1: "length ?q1 \<le> kMaxAndroidEventsPerFrame"
    using a [THEN conjunct1] r by (rule mp)
  have 2: "ReceiveGamepadEvent ?full 1 2 0 (- 1) 0 = ?full"
    using b [THEN conjunct2, THEN conjunct1] f by (rule mp)
  have "ReceiveAll [] ?evs = take kMaxAndroidEventsPerFrame ?evs"
    using mp [OF a [THEN conjunct2, THEN conjunct2, THEN conjunct2, THEN conjunct1] n]
    by (rule conjunct1)
  then have 3: "ReceiveAll [] ?evs = moves_of_devices 100"
    unfolding t .
  from mp [OF b [THEN conjunct2, THEN conjunct2, THEN conjunct1] w(3)] obtain gm1 where g1:
    "HandleGamepadEvents example_header ?s1 =
       Inr (?s1\<lparr>gamepad_map := gm1, unhandled_java_input_events := []\<rparr>)"
    "dom gm1 = dom (gamepad_map ?s1) \<union> device_id ` set (unhandled_java_input_events ?s1)"
    "\<forall>dev k. 0 \<le> k \<and> k < kControlCount \<longrightarrow>
       button_level gm1 dev k =
         levels_in_order (kGamepadHatThreshold example_header) dev k
           (button_level (gamepad_map ?s1) dev k) (unhandled_java_input_events ?s1)"
    by blast
  have o1: "HandleGamepadEvents example_header ?s1 = Inr (example_system\<lparr>gamepad_map := gm1\<rparr>)"
    "dom gm1 = {1}" "\<not> button_level gm1 1 kButtonA"
    using g1(1) apply (simp add: example_system_def)
    using g1(2) dev1 apply (simp add: example_system_def)
    using g1(3) kA(1) ord1 thr by (simp add: example_system_def button_level_def)
  from mp [OF b2 [THEN conjunct2, THEN conjunct2, THEN conjunct1] w(4)] obtain gm2 where g2:
    "HandleGamepadEvents example_header ?s2 =
       Inr (?s2\<lparr>gamepad_map := gm2, unhandled_java_input_events := []\<rparr>)"
    "dom gm2 = dom (gamepad_map ?s2) \<union> device_id ` set (unhandled_java_input_events ?s2)"
    "\<forall>dev k. 0 \<le> k \<and> k < kControlCount \<longrightarrow>
       button_level gm2 dev k =
         levels_in_order (kGamepadHatThreshold example_header) dev k
           (button_level (gamepad_map ?s2) dev k) (unhandled_java_input_events ?s2)"
    by blast
  have o2: "HandleGamepadEvents example_header ?s2 = Inr (example_system\<lparr>gamepad_map := gm2\<rparr>)"
    "dom gm2 = {1}" "button_level gm2 1 kButtonA"
    using g2(1) apply (simp add: example_system_def)
    using g2(2) dev1 apply (simp add: example_system_def)
    using g2(3) kA(1) ord2 thr by (simp add: example_system_def button_level_def)
  have hyp: "length ?evs = kMaxAndroidEventsPerFrame + 5 \<and> gamepads_wf (gamepad_map ?s) \<and>
      unhandled_java_input_events ?s = ReceiveAll [] ?evs"
    using n w(1) by simp
  have hyp2: "gamepad_map ?s = Map.empty \<and> distinct (map device_id ?evs)"
    using e(1) dist by simp
  from mp [OF a [THEN conjunct2, THEN conjunct2, THEN conjunct2, THEN conjunct2] hyp] hyp2
  obtain gm where g:
    "HandleGamepadEvents example_header ?s =
       Inr (?s\<lparr>gamepad_map := gm, unhandled_java_input_events := []\<rparr>)"
    "dom gm = dom (gamepad_map ?s) \<union> device_id ` set (take kMaxAndroidEventsPerFrame ?evs)"
    "\<forall>dev k. 0 \<le> k \<and> k < kControlCount \<longrightarrow>
       button_level gm dev k =
         levels_in_order (kGamepadHatThreshold example_header) dev k
           (button_level (gamepad_map ?s) dev k) (take kMaxAndroidEventsPerFrame ?evs)"
    "card (dom gm) = kMaxAndroidEventsPerFrame"
    by blast
  have dg: "dom gm = int ` {0..<100}"
    using g(2) unfolding t devs e(1) by simp
  have o3: "HandleGamepadEvents example_header ?s = Inr (example_system\<lparr>gamepad_map := gm\<rparr>)"
    using g(1) by (simp add: example_system_def)
  have o4: "card (dom gm) = 100"
    using g(4) by (simp add: kMaxAndroidEventsPerFrame_def)
  have o5: "gm 99 \<noteq> None" "gm 100 = None" "gm 104 = None"
    using dg in99 out by (auto simp: dom_def)
  have o6: "button_level gm 99 kLeft"
    using g(3) kA(2) lev99 unfolding t thr e(1) by (simp add: button_level_def)
  have A: "\<exists>gm. HandleGamepadEvents example_header ?s1 =
          Inr (example_system\<lparr>gamepad_map := gm\<rparr>) \<and>
        dom gm = {1} \<and> \<not> button_level gm 1 kButtonA"
    using o1 by (intro exI [of _ gm1] conjI)
  have B: "\<exists>gm. HandleGamepadEvents example_header ?s2 =
          Inr (example_system\<lparr>gamepad_map := gm\<rparr>) \<and>
        dom gm = {1} \<and> button_level gm 1 kButtonA"
    using o2 by (intro exI [of _ gm2] conjI)
  have C: "\<exists>gm. HandleGamepadEvents example_header ?s =
          Inr (example_system\<lparr>gamepad_map := gm\<rparr>) \<and>
        card (dom gm) = 100 \<and> gm 99 \<noteq> None \<and> button_level gm 99 kLeft \<and>
        gm 100 = None \<and> gm 104 = None"
    using o3 o4 o5(1) o6 o5(2,3) by (intro exI [of _ gm] conjI)
  show ?thesis
    using r 1 f 2 w(2) A B n dist 3 C by (intro conjI)
qed

text \<open>
  Well sized gamepads are an invariant: the map starts empty, and a frame that returns
  leaves them well sized, whatever events it handles.
\<close>

lemma gamepad_map_GetButton_Update:
  "gamepad_map (GetButton_Update k d s) = gamepad_map s"
  by (simp add: GetButton_Update_def InputSystem_GetButton_def split: option.splits)

lemma HandleEvent_gamepad_map:
  assumes "HandleEvent h ev (ws, s) = Inr (ws', s')"
  shows "gamepad_map s' = gamepad_map s"
proof (cases ev)
  case (TouchFingerEv ty fingers e)
  then show ?thesis using assms
    by (cases ty)
      (auto simp: GetPointerButton_Update_def gamepad_map_GetButton_Update
        split: sum.splits prod.splits)
qed (use assms in \<open>auto simp: GetPointerButton_Update_def gamepad_map_GetButton_Update
       Let_def split: list.splits if_splits sum.splits prod.splits\<close>)

lemma PollEvents_gamepad_map:
  "PollEvents h evs (ws, s) = Inr (ws', s') \<Longrightarrow> gamepad_map s' = gamepad_map s"
proof (induction evs arbitrary: ws s)
  case Nil
  then show ?case by simp
next
  case (Cons ev evs)
  then obtain ws1 s1 where 1: "HandleEvent h ev (ws, s) = Inr (ws1, s1)"
    and 2: "PollEvents h evs (ws1, s1) = Inr (ws', s')"
    by (auto split: sum.splits)
  show ?case
    using HandleEvent_gamepad_map [OF 1] Cons.IH [OF 2] by simp
qed

lemma Gamepad_AdvanceFrame_wf:
  "gamepads_wf gm \<Longrightarrow> gamepads_wf (\<lambda>k. map_option Gamepad_AdvanceFrame (gm k))"
  by (auto simp: gamepads_wf_def gamepad_wf_def Gamepad_AdvanceFrame_def)

lemma InputSystem_AdvanceFrame_gamepads_wf:
  assumes "gamepads_wf (gamepad_map s)"
    and "InputSystem_AdvanceFrame h evs (ws, s) = Inr (ws', s')"
  shows "gamepads_wf (gamepad_map s')"
proof -
  let ?s1 = "s\<lparr>mousewheel_delta := (0, 0),
                 button_map := (\<lambda>k. map_option Button_AdvanceFrame (button_map s k)),
                 pointers := map (\<lambda>p. p\<lparr>mousedelta := (0, 0)\<rparr>) (pointers s),
                 joystick_map := (\<lambda>k. map_option Joystick_AdvanceFrame (joystick_map s k)),
                 gamepad_map := (\<lambda>k. map_option Gamepad_AdvanceFrame (gamepad_map s k))\<rparr>"
  have w1: "gamepads_wf (gamepad_map ?s1)"
    using Gamepad_AdvanceFrame_wf [OF assms(1)] by simp
  obtain gm where gm: "handle_in_order (kGamepadHatThreshold h) (gamepad_map ?s1)
       (unhandled_java_input_events ?s1) = Inr gm" "gamepads_wf gm"
    using handle_in_order_wf [OF w1] by blast
  then have H: "HandleGamepadEvents h ?s1 =
      Inr (?s1\<lparr>gamepad_map := gm, unhandled_java_input_events := []\<rparr>)"
    by (simp add: HandleGamepadEvents_in_order)
  from assms(2) obtain s3 s4 where "PollEvents h evs (ws, s3) = Inr (ws', s4)"
    "gamepad_map s3 = gm" "gamepad_map s' = gamepad_map s4"
    unfolding InputSystem_AdvanceFrame_def
    by (auto simp: Let_def H split: sum.splits prod.splits if_splits)
  then show ?thesis
    using PollEvents_gamepad_map [of h evs ws s3 ws' s4] gm(2) by simp
qed

subsection \<open>The gamepad deadzone\<close>

text \<open>
  C4. A gamepad motion event with axis values \<open>(x, y)\<close> updates \<^verbatim>\<open>kLeft\<close> with
  \<open>x < - threshold\<close>, \<^verbatim>\<open>kRight\<close> with \<open>x > threshold\<close>, \<^verbatim>\<open>kUp\<close> with
  \<open>y < - threshold\<close> and \<^verbatim>\<open>kDown\<close> with \<open>y > threshold\<close>, all strict: an \<open>x\<close>
  below \<open>- threshold\<close> holds left and not right (the threshold is not negative), an
  \<open>x\<close> with \<open>\<bar>x\<bar> < threshold\<close> holds neither, and \<open>x = threshold\<close> does not hold
  right.
\<close>

theorem gamepad_deadzone_strict:
  assumes "event_code e = AMOTION_EVENT_ACTION_MOVE" and "gamepads_wf gm"
  shows "\<exists>gm' g'. HandleGamepadEvent thr gm e = Inr gm' \<and>
     HandleGamepadEvents_loop thr gm [e] = Inr (gm', []) \<and>
     gm' (device_id e) = Some g' \<and>
     (let bs = gamepad_button_list (fst (GetGamepad (device_id e) gm));
          bs' = gamepad_button_list g'
      in bs' ! nat kLeft = Button_Update (bs ! nat kLeft) (event_x e < - thr) \<and>
         bs' ! nat kRight = Button_Update (bs ! nat kRight) (event_x e > thr) \<and>
         bs' ! nat kUp = Button_Update (bs ! nat kUp) (event_y e < - thr) \<and>
         bs' ! nat kDown = Button_Update (bs ! nat kDown) (event_y e > thr) \<and>
         is_down (bs' ! nat kLeft) = (event_x e < - thr) \<and>
         is_down (bs' ! nat kRight) = (event_x e > thr) \<and>
         is_down (bs' ! nat kUp) = (event_y e < - thr) \<and>
         is_down (bs' ! nat kDown) = (event_y e > thr) \<and>
         (0 \<le> thr \<and> event_x e < - thr \<longrightarrow>
            is_down (bs' ! nat kLeft) \<and> \<not> is_down (bs' ! nat kRight)) \<and>
         (\<bar>event_x e\<bar> < thr \<longrightarrow>
            \<not> is_down (bs' ! nat kLeft) \<and> \<not> is_down (bs' ! nat kRight)) \<and>
         (event_x e = thr \<longrightarrow> \<not> is_down (bs' ! nat kRight)))"
proof -
  obtain g gm1 where G: "GetGamepad (device_id e) gm = (g, gm1)"
    by (cases "GetGamepad (device_id e) gm")
  from GetGamepad_wf [OF assms(2) G] have wg: "gamepad_wf g"
    by simp
  have len: "length (gamepad_button_list g) = 7"
    using wg by (simp add: gamepad_wf_def kControlCount_def)
  have isd: "is_down (Button_Update b d) = d" for b d
    by (simp add: Button_Update_def Let_def)
  have ne: "AMOTION_EVENT_ACTION_MOVE \<noteq> AKEY_EVENT_ACTION_DOWN"
    "AMOTION_EVENT_ACTION_MOVE \<noteq> AKEY_EVENT_ACTION_UP"
    by (simp_all add: AMOTION_EVENT_ACTION_MOVE_def AKEY_EVENT_ACTION_DOWN_def
        AKEY_EVENT_ACTION_UP_def)
  have once: "HandleGamepadEvents_loop thr gm [e] =
      (case HandleGamepadEvent thr gm e of Inl err \<Rightarrow> Inl err | Inr gm1 \<Rightarrow> Inr (gm1, []))"
    by (simp split: sum.splits)
  show ?thesis
    unfolding once HandleGamepadEvent_def G
    using assms(1) ne len
    by (simp add: Let_def Gamepad_GetButton_Update_def Gamepad_GetButton_def
        kControlCount_def kLeft_def kRight_def kUp_def kDown_def isd) linarith
qed

theorem gamepad_deadzone_strict_witness:
  "event_code move_left = AMOTION_EVENT_ACTION_MOVE \<and> gamepads_wf Map.empty \<and>
   (0 :: real) \<le> 1 / 2 \<and> event_x move_left < - (1 / 2) \<and>
   (\<exists>gm' g'. HandleGamepadEvent (1 / 2) Map.empty move_left = Inr gm' \<and>
      gm' (device_id move_left) = Some g' \<and>
      is_down (gamepad_button_list g' ! nat kLeft) \<and>
      \<not> is_down (gamepad_button_list g' ! nat kRight))"
  using gamepad_deadzone_strict [of move_left Map.empty "1 / 2"]
  by (auto simp: move_left_def gamepads_wf_def Let_def)

subsection \<open>Joystick axes\<close>

text \<open>Every raw value but the lowest is normalized into \<open>[-1, 1]\<close>.\<close>

lemma normalized_axis_value_in_range:
  "- 32767 \<le> sint raw \<Longrightarrow>
   - 1 \<le> normalized_axis_value raw \<and> normalized_axis_value raw \<le> 1"
  using sint_lt [of raw]
  by (simp add: normalized_axis_value_def kJoystickAxisRange_def del: of_int_sint)

text \<open>
  C5 fails on the code. The claim: for every raw 16-bit axis value in
  \<open>[-32768, 32767]\<close> the value passed to the axis, the raw value divided by 32767,
  is in \<open>[-1, 1]\<close>. The code: at the raw value \<open>-32768\<close> the quotient is
  \<open>-32768 / 32767\<close>, below \<open>-1\<close> by more than the distance \<open>1 / 2 ^ 23\<close> from
  \<open>-1\<close> to the next \<^verbatim>\<open>float\<close> under it, so the rounded quotient is below \<open>-1\<close> as
  well; that value is stored in the axis.
\<close>

theorem joystick_axis_below_minus_one:
  "normalized_axis_value (- 32768) = - 32768 / 32767 \<and>
   normalized_axis_value (- 32768) < - 1 - 1 / 2 ^ 23 \<and>
   HandleJoystickEvent (JoyAxisEv 3 0 (- 32768))
     (example_system\<lparr>joystick_map := [3 \<mapsto> held_joystick]\<rparr>) =
   Inr (example_system\<lparr>joystick_map :=
          [3 \<mapsto> held_joystick\<lparr>axis_list := [\<lparr>axis_value = - 32768 / 32767\<rparr>]\<rparr>]\<rparr>)"
  by (simp add: normalized_axis_value_def kJoystickAxisRange_def GetJoystick_def
      Joystick_GetAxis_def held_joystick_def JoystickAxis_Update_def JoystickAxis_new_def
      example_system_def)

subsection \<open>The joystick registry\<close>

text \<open>
  What \<^verbatim>\<open>OpenConnectedJoysticks\<close> leaves under a key: the entry as it was when no
  connected joystick has this instance id, else the entry (a new joystick when there was
  none) with the handle of the last connected joystick of this id.
\<close>

lemma OpenConnectedJoysticks_lookup:
  "OpenConnectedJoysticks devices jm k =
     (case filter (\<lambda>d. snd d = k) devices of
        [] \<Rightarrow> jm k
      | d # ds \<Rightarrow> Some ((case jm k of None \<Rightarrow> Joystick_new | Some j \<Rightarrow> j)
                        \<lparr>joystick_data := fst (last (d # ds))\<rparr>))"
proof (induction devices arbitrary: jm)
  case Nil
  then show ?case by simp
next
  case (Cons d devices)
  obtain hnd i where d: "d = (hnd, i)"
    by (cases d)
  show ?case
    unfolding d by (simp add: Cons.IH Let_def split: option.splits list.splits)
qed

lemma UpdateConnectedJoystickList_lookup:
  "UpdateConnectedJoystickList devices jm k =
     (case filter (\<lambda>d. snd d = k) devices of
        [] \<Rightarrow> map_option (\<lambda>j. j\<lparr>joystick_data := None\<rparr>) (jm k)
      | d # ds \<Rightarrow> Some ((case jm k of None \<Rightarrow> Joystick_new | Some j \<Rightarrow> j)
                        \<lparr>joystick_data := fst (last (d # ds))\<rparr>))"
  by (cases "jm k")
    (simp_all add: UpdateConnectedJoystickList_def OpenConnectedJoysticks_lookup
      CloseOpenJoysticks_def split: list.splits)

lemma filter_instance_id:
  "distinct (map snd ds) \<Longrightarrow> (hnd, k) \<in> set ds \<Longrightarrow>
   filter (\<lambda>d. snd d = k) ds = [(hnd, k)]"
proof (induction ds)
  case Nil
  then show ?case by simp
next
  case (Cons d ds)
  show ?case
  proof (cases "d = (hnd, k)")
    case True
    have "filter (\<lambda>d. snd d = k) ds = []"
      using Cons.prems(1) True by (auto simp: filter_empty_conv image_iff)
    then show ?thesis using True by simp
  next
    case False
    then have "(hnd, k) \<in> set ds"
      using Cons.prems(2) by simp
    moreover have "snd d \<noteq> k"
      using Cons.prems(1) calculation by (force simp: image_iff)
    ultimately show ?thesis using Cons by simp
  qed
qed

text \<open>
  C7. For a joystick instance id in the joystick map, a device-removed event, which
  enumerates the connected devices again, first sets the handle of the entry to null
  (\<^verbatim>\<open>CloseOpenJoysticks\<close>, which erases nothing) and then opens the joysticks still
  connected: the entry is kept (no entry is ever erased) and, the device being gone
  from the enumeration, its handle stays null; a later device-added event with the same
  instance id puts the new handle into the same entry, whose button, axis and hat lists
  are as they were.
\<close>

theorem joystick_registry_persists:
  assumes "joystick_map s jid = Some j"
  shows "CloseOpenJoysticks (joystick_map s) jid = Some (j\<lparr>joystick_data := None\<rparr>) \<and>
         dom (CloseOpenJoysticks (joystick_map s)) = dom (joystick_map s) \<and>
         (\<exists>s1 j1. HandleJoystickEvent (JoyDeviceEv after_removal) s = Inr s1 \<and>
           dom (joystick_map s) \<subseteq> dom (joystick_map s1) \<and>
           joystick_map s1 jid = Some j1 \<and>
           button_list j1 = button_list j \<and> axis_list j1 = axis_list j \<and>
           hat_list j1 = hat_list j \<and>
           (jid \<notin> snd ` set after_removal \<longrightarrow> joystick_data j1 = None) \<and>
           (\<forall>after_add hnd. (hnd, jid) \<in> set after_add \<and> distinct (map snd after_add) \<longrightarrow>
              (\<exists>s2 j2. HandleJoystickEvent (JoyDeviceEv after_add) s1 = Inr s2 \<and>
                 dom (joystick_map s1) \<subseteq> dom (joystick_map s2) \<and>
                 joystick_map s2 jid = Some j2 \<and> joystick_data j2 = hnd \<and>
                 button_list j2 = button_list j \<and> axis_list j2 = axis_list j \<and>
                 hat_list j2 = hat_list j)))"
proof -
  let ?jm1 = "UpdateConnectedJoystickList after_removal (joystick_map s)"
  let ?s1 = "s\<lparr>joystick_map := ?jm1\<rparr>"
  have dom: "dom jm \<subseteq> dom (UpdateConnectedJoystickList devices jm)" for devices jm
    by (auto simp: UpdateConnectedJoystickList_lookup split: list.splits)
  obtain j1 where j1: "?jm1 jid = Some j1" "button_list j1 = button_list j"
      "axis_list j1 = axis_list j" "hat_list j1 = hat_list j"
      "jid \<notin> snd ` set after_removal \<longrightarrow> joystick_data j1 = None"
  proof (cases "filter (\<lambda>d. snd d = jid) after_removal")
    case Nil
    show ?thesis
      by (rule that [of "j\<lparr>joystick_data := None\<rparr>"])
        (simp_all add: UpdateConnectedJoystickList_lookup Nil assms)
  next
    case (Cons d ds)
    then have "d \<in> set (filter (\<lambda>d. snd d = jid) after_removal)"
      by simp
    then have "jid \<in> snd ` set after_removal"
      by force
    then show ?thesis
      by (intro that [of "j\<lparr>joystick_data := fst (last (d # ds))\<rparr>"])
        (simp_all add: UpdateConnectedJoystickList_lookup Cons assms)
  qed
  have add: "\<exists>s2 j2. HandleJoystickEvent (JoyDeviceEv after_add) ?s1 = Inr s2 \<and>
                 dom (joystick_map ?s1) \<subseteq> dom (joystick_map s2) \<and>
                 joystick_map s2 jid = Some j2 \<and> joystick_data j2 = hnd \<and>
                 button_list j2 = button_list j \<and> axis_list j2 = axis_list j \<and>
                 hat_list j2 = hat_list j"
    if "(hnd, jid) \<in> set after_add \<and> distinct (map snd after_add)" for after_add hnd
    using filter_instance_id [of after_add hnd jid] that j1(1-4) dom [of ?jm1 after_add]
    by (simp add: UpdateConnectedJoystickList_lookup)
  have 1: "HandleJoystickEvent (JoyDeviceEv after_removal) s = Inr ?s1"
    by simp
  have 2: "dom (joystick_map s) \<subseteq> dom (joystick_map ?s1)"
    using dom [of "joystick_map s" after_removal] by simp
  have 3: "joystick_map ?s1 jid = Some j1"
    using j1(1) by simp
  have closed: "CloseOpenJoysticks (joystick_map s) jid = Some (j\<lparr>joystick_data := None\<rparr>)"
    "dom (CloseOpenJoysticks (joystick_map s)) = dom (joystick_map s)"
    using assms by (auto simp: CloseOpenJoysticks_def dom_def)
  have "\<exists>s1 j1. HandleJoystickEvent (JoyDeviceEv after_removal) s = Inr s1 \<and>
           dom (joystick_map s) \<subseteq> dom (joystick_map s1) \<and>
           joystick_map s1 jid = Some j1 \<and>
           button_list j1 = button_list j \<and> axis_list j1 = axis_list j \<and>
           hat_list j1 = hat_list j \<and>
           (jid \<notin> snd ` set after_removal \<longrightarrow> joystick_data j1 = None) \<and>
           (\<forall>after_add hnd. (hnd, jid) \<in> set after_add \<and> distinct (map snd after_add) \<longrightarrow>
              (\<exists>s2 j2. HandleJoystickEvent (JoyDeviceEv after_add) s1 = Inr s2 \<and>
                 dom (joystick_map s1) \<subseteq> dom (joystick_map s2) \<and>
                 joystick_map s2 jid = Some j2 \<and> joystick_data j2 = hnd \<and>
                 button_list j2 = button_list j \<and> axis_list j2 = axis_list j \<and>
                 hat_list j2 = hat_list j))"
    using 1 2 3 j1(2-5) add by blast
  with closed show ?thesis
    by blast
qed

theorem joystick_registry_persists_witness:
  "joystick_map (example_system\<lparr>joystick_map := [3 \<mapsto> held_joystick]\<rparr>) 3 = Some held_joystick \<and>
   3 \<notin> snd ` set ([] :: (nat option \<times> int) list) \<and>
   (Some 8, 3) \<in> set [(Some 8, 3 :: int)] \<and> distinct (map snd [(Some (8 :: nat), 3 :: int)]) \<and>
   (\<exists>s1 j1 s2 j2.
      HandleJoystickEvent (JoyDeviceEv [])
        (example_system\<lparr>joystick_map := [3 \<mapsto> held_joystick]\<rparr>) = Inr s1 \<and>
      joystick_map s1 3 = Some j1 \<and> joystick_data j1 = None \<and>
      button_list j1 = button_list held_joystick \<and>
      HandleJoystickEvent (JoyDeviceEv [(Some 8, 3)]) s1 = Inr s2 \<and>
      joystick_map s2 3 = Some j2 \<and> joystick_data j2 = Some 8 \<and>
      button_list j2 = button_list held_joystick \<and> length (button_list j2) = 2)"
proof -
  let ?s = "example_system\<lparr>joystick_map := [3 \<mapsto> held_joystick]\<rparr>"
  have 0: "joystick_map ?s 3 = Some held_joystick"
    by simp
  have gone: "3 \<notin> snd ` set ([] :: (nat option \<times> int) list)"
    by simp
  from conjunct2 [OF conjunct2 [OF joystick_registry_persists [OF 0, of "[]"]]] gone
  obtain s1 j1 where 1: "HandleJoystickEvent (JoyDeviceEv []) ?s = Inr s1"
      "joystick_map s1 3 = Some j1" "button_list j1 = button_list held_joystick"
      "joystick_data j1 = None"
    and later: "\<forall>after_add hnd.
       (hnd, 3) \<in> set after_add \<and> distinct (map snd after_add) \<longrightarrow>
       (\<exists>s2 j2. HandleJoystickEvent (JoyDeviceEv after_add) s1 = Inr s2 \<and>
          dom (joystick_map s1) \<subseteq> dom (joystick_map s2) \<and>
          joystick_map s2 3 = Some j2 \<and> joystick_data j2 = hnd \<and>
          button_list j2 = button_list held_joystick \<and>
          axis_list j2 = axis_list held_joystick \<and> hat_list j2 = hat_list held_joystick)"
    by blast
  have added: "(Some 8, 3) \<in> set [(Some 8, 3 :: int)] \<and>
      distinct (map snd [(Some (8 :: nat), 3 :: int)])"
    by simp
  from later added
  obtain s2 j2 where 2: "HandleJoystickEvent (JoyDeviceEv [(Some 8, 3)]) s1 = Inr s2"
      "joystick_map s2 3 = Some j2" "joystick_data j2 = Some 8"
      "button_list j2 = button_list held_joystick"
    by blast
  have "length (button_list j2) = 2"
    using 2(4) by (simp add: held_joystick_def)
  with 0 gone added 1 2 show ?thesis
    by blast
qed

text \<open>
  Over whole frames too: a frame that returns keeps every joystick of the map, with no
  fewer buttons, axes and hats, whatever events it handles.
\<close>

lemma joysticks_kept_refl: "joysticks_kept jm jm"
  by (simp add: joysticks_kept_def joystick_kept_def)

lemma joysticks_kept_trans:
  "joysticks_kept a b \<Longrightarrow> joysticks_kept b c \<Longrightarrow> joysticks_kept a c"
  unfolding joysticks_kept_def joystick_kept_def by (meson order_trans)

lemma joysticks_kept_upd:
  "jm k = Some j \<Longrightarrow> joystick_kept j j' \<Longrightarrow> joysticks_kept jm (jm(k \<mapsto> j'))"
  by (auto simp: joysticks_kept_def joystick_kept_def)

lemma length_resize: "length (resize n d xs) = n"
  by (simp add: resize_def)

lemma UpdateConnectedJoystickList_kept:
  "joysticks_kept jm (UpdateConnectedJoystickList devices jm)"
  by (auto simp: joysticks_kept_def joystick_kept_def UpdateConnectedJoystickList_lookup
      split: list.splits)

lemma HandleJoystickEvent_kept:
  assumes "HandleJoystickEvent ev s = Inr s'"
  shows "joysticks_kept (joystick_map s) (joystick_map s')"
proof (cases ev)
  case (JoyAxisEv which axis raw)
  then show ?thesis using assms
    by (auto simp: GetJoystick_def Joystick_GetAxis_def Let_def length_resize joystick_kept_def
        intro!: joysticks_kept_upd split: option.splits if_splits)
next
  case (JoyButtonEv which button state)
  then show ?thesis using assms
    by (auto simp: GetJoystick_def Joystick_GetButton_def Let_def length_resize
        joystick_kept_def intro!: joysticks_kept_upd split: option.splits if_splits)
next
  case (JoyHatEv which hat hat_enum)
  then show ?thesis using assms
    by (auto simp: GetJoystick_def Joystick_GetHat_def Let_def length_resize joystick_kept_def
        intro!: joysticks_kept_upd split: option.splits if_splits)
next
  case (JoyDeviceEv devices)
  then show ?thesis using assms
    by (auto simp: UpdateConnectedJoystickList_kept)
qed (use assms in \<open>auto simp: joysticks_kept_refl\<close>)

lemma joystick_map_GetButton_Update:
  "joystick_map (GetButton_Update k d s) = joystick_map s"
  by (simp add: GetButton_Update_def InputSystem_GetButton_def split: option.splits)

lemma HandleEvent_kept:
  assumes "HandleEvent h ev (ws, s) = Inr (ws', s')"
  shows "joysticks_kept (joystick_map s) (joystick_map s')"
proof (cases ev)
  case (TouchFingerEv ty fingers e)
  then show ?thesis using assms
    by (cases ty)
      (auto simp: joysticks_kept_refl GetPointerButton_Update_def
        joystick_map_GetButton_Update split: sum.splits prod.splits)
next
  case (MouseButtonEv button state x y)
  then show ?thesis using assms
    by (auto simp: joysticks_kept_refl GetPointerButton_Update_def
        joystick_map_GetButton_Update Let_def split: list.splits if_splits)
next
  case (JoyAxisEv which axis raw)
  then show ?thesis using assms HandleJoystickEvent_kept [of ev s]
    by (auto split: sum.splits)
next
  case (JoyButtonEv which button state)
  then show ?thesis using assms HandleJoystickEvent_kept [of ev s]
    by (auto split: sum.splits)
next
  case (JoyHatEv which hat hat_enum)
  then show ?thesis using assms HandleJoystickEvent_kept [of ev s]
    by (auto split: sum.splits)
next
  case (JoyDeviceEv devices)
  then show ?thesis using assms HandleJoystickEvent_kept [of ev s]
    by (auto split: sum.splits)
qed (use assms in \<open>auto simp: joysticks_kept_refl joystick_map_GetButton_Update Let_def
       split: list.splits if_splits\<close>)

lemma PollEvents_kept:
  "PollEvents h evs (ws, s) = Inr (ws', s') \<Longrightarrow>
   joysticks_kept (joystick_map s) (joystick_map s')"
proof (induction evs arbitrary: ws s)
  case Nil
  then show ?case by (simp add: joysticks_kept_refl)
next
  case (Cons ev evs)
  then obtain ws1 s1 where 1: "HandleEvent h ev (ws, s) = Inr (ws1, s1)"
    and 2: "PollEvents h evs (ws1, s1) = Inr (ws', s')"
    by (auto split: sum.splits)
  show ?case
    using HandleEvent_kept [OF 1] Cons.IH [OF 2] by (rule joysticks_kept_trans)
qed

lemma InputSystem_AdvanceFrame_keeps_joysticks:
  assumes "InputSystem_AdvanceFrame h evs (ws, s) = Inr (ws', s')"
  shows "joysticks_kept (joystick_map s) (joystick_map s')"
proof -
  have a: "joysticks_kept (joystick_map s)
             (\<lambda>k. map_option Joystick_AdvanceFrame (joystick_map s k))"
    by (auto simp: joysticks_kept_def joystick_kept_def Joystick_AdvanceFrame_def)
  from assms obtain s2 s4 where
    "PollEvents h evs (ws, s2) = Inr (ws', s4)"
    "joystick_map s2 = (\<lambda>k. map_option Joystick_AdvanceFrame (joystick_map s k))"
    "joystick_map s' = joystick_map s4"
    by (auto simp: InputSystem_AdvanceFrame_def HandleGamepadEvents_def Let_def
        split: sum.splits prod.splits if_splits)
  then show ?thesis
    using a PollEvents_kept [of h evs ws s2 ws' s4] by (auto intro: joysticks_kept_trans)
qed

subsection \<open>Frames without events\<close>

text \<open>
  With no gamepad event queued and no SDL event to poll, \<^verbatim>\<open>AdvanceFrame\<close> is the
  reset of the per-frame state and the step of the Cardboard latch.
\<close>

lemma InputSystem_AdvanceFrame_idle:
  assumes "unhandled_java_input_events s = []"
  shows "InputSystem_AdvanceFrame h [] (ws, s) =
     Inr (ws, s\<lparr>mousewheel_delta := (0, 0),
                 button_map := (\<lambda>k. map_option Button_AdvanceFrame (button_map s k)),
                 pointers := map (\<lambda>p. p\<lparr>mousedelta := (0, 0)\<rparr>) (pointers s),
                 joystick_map := (\<lambda>k. map_option Joystick_AdvanceFrame (joystick_map s k)),
                 gamepad_map := (\<lambda>k. map_option Gamepad_AdvanceFrame (gamepad_map s k)),
                 text_input_events := (if record_text_input s then text_input_events s else []),
                 cardboard_input := CardboardInput_AdvanceFrame (cardboard_input s)\<rparr>)"
  using assms by (simp add: InputSystem_AdvanceFrame_def HandleGamepadEvents_def Let_def)

lemma settled_twice: "settled b (Button_AdvanceFrame (Button_AdvanceFrame b))"
  by (simp add: settled_def Button_AdvanceFrame_def)

lemma settled_list:
  "list_all2 settled bs (map (Button_AdvanceFrame \<circ> Button_AdvanceFrame) bs)"
  by (simp add: list_all2_conv_all_nth settled_twice)

text \<open>
  C8. Two calls of \<^verbatim>\<open>InputSystem::AdvanceFrame\<close> with no platform event (nothing to
  poll, no gamepad event queued) leave every button of the button map, of every
  joystick and of every gamepad with \<^verbatim>\<open>went_down\<close> and \<^verbatim>\<open>went_up\<close> false and with
  the \<^verbatim>\<open>is_down\<close> it had before the two calls; no button appears or disappears.
\<close>

theorem AdvanceFrame_twice_settles:
  assumes "unhandled_java_input_events s = []"
  shows "\<exists>ws1 s1 ws2 s2.
     InputSystem_AdvanceFrame h [] (ws, s) = Inr (ws1, s1) \<and>
     InputSystem_AdvanceFrame h [] (ws1, s1) = Inr (ws2, s2) \<and>
     (\<forall>k. rel_option settled (button_map s k) (button_map s2 k)) \<and>
     (\<forall>k. rel_option (\<lambda>j j'. list_all2 settled (button_list j) (button_list j'))
            (joystick_map s k) (joystick_map s2 k)) \<and>
     (\<forall>k. rel_option (\<lambda>g g'. list_all2 settled (gamepad_button_list g) (gamepad_button_list g'))
            (gamepad_map s k) (gamepad_map s2 k))"
proof -
  define adv where "adv = (\<lambda>t :: InputSystem. t\<lparr>mousewheel_delta := (0, 0),
      button_map := (\<lambda>k. map_option Button_AdvanceFrame (button_map t k)),
      pointers := map (\<lambda>p. p\<lparr>mousedelta := (0, 0)\<rparr>) (pointers t),
      joystick_map := (\<lambda>k. map_option Joystick_AdvanceFrame (joystick_map t k)),
      gamepad_map := (\<lambda>k. map_option Gamepad_AdvanceFrame (gamepad_map t k)),
      text_input_events := (if record_text_input t then text_input_events t else []),
      cardboard_input := CardboardInput_AdvanceFrame (cardboard_input t)\<rparr>)"
  define s1 where "s1 = adv s"
  define s2 where "s2 = adv s1"
  have 1: "InputSystem_AdvanceFrame h [] (ws, s) = Inr (ws, s1)"
    using InputSystem_AdvanceFrame_idle [OF assms, of h ws] by (simp add: s1_def adv_def)
  have q1: "unhandled_java_input_events s1 = []"
    using assms by (simp add: s1_def adv_def)
  have 2: "InputSystem_AdvanceFrame h [] (ws, s1) = Inr (ws, s2)"
    using InputSystem_AdvanceFrame_idle [OF q1, of h ws] by (simp add: s2_def adv_def)
  have b1: "button_map s1 = (\<lambda>k. map_option Button_AdvanceFrame (button_map s k))"
    and j1: "joystick_map s1 = (\<lambda>k. map_option Joystick_AdvanceFrame (joystick_map s k))"
    and g1: "gamepad_map s1 = (\<lambda>k. map_option Gamepad_AdvanceFrame (gamepad_map s k))"
    by (simp_all add: s1_def adv_def)
  have b2: "button_map s2 = (\<lambda>k. map_option Button_AdvanceFrame (button_map s1 k))"
    and j2: "joystick_map s2 = (\<lambda>k. map_option Joystick_AdvanceFrame (joystick_map s1 k))"
    and g2: "gamepad_map s2 = (\<lambda>k. map_option Gamepad_AdvanceFrame (gamepad_map s1 k))"
    by (simp_all add: s2_def adv_def)
  have B: "rel_option settled (button_map s k) (button_map s2 k)" for k
    by (cases "button_map s k") (simp_all add: b1 b2 settled_twice)
  have J: "rel_option (\<lambda>j j'. list_all2 settled (button_list j) (button_list j'))
            (joystick_map s k) (joystick_map s2 k)" for k
    by (cases "joystick_map s k") (simp_all add: j1 j2 Joystick_AdvanceFrame_def settled_list)
  have G: "rel_option (\<lambda>g g'. list_all2 settled (gamepad_button_list g) (gamepad_button_list g'))
            (gamepad_map s k) (gamepad_map s2 k)" for k
    by (cases "gamepad_map s k") (simp_all add: g1 g2 Gamepad_AdvanceFrame_def settled_list)
  show ?thesis
    using 1 2 B J G by blast
qed

theorem AdvanceFrame_twice_settles_witness:
  "unhandled_java_input_events (example_system\<lparr>joystick_map := [3 \<mapsto> held_joystick]\<rparr>) = [] \<and>
   (\<exists>ws1 s1 ws2 s2 j'.
      InputSystem_AdvanceFrame example_header [] ((640, 480),
        example_system\<lparr>joystick_map := [3 \<mapsto> held_joystick]\<rparr>) = Inr (ws1, s1) \<and>
      InputSystem_AdvanceFrame example_header [] (ws1, s1) = Inr (ws2, s2) \<and>
      joystick_map s2 3 = Some j' \<and>
      list_all2 settled (button_list held_joystick) (button_list j') \<and>
      map is_down (button_list j') = [True, False] \<and>
      map went_down (button_list j') = [False, False])"
proof -
  let ?s = "example_system\<lparr>joystick_map := [3 \<mapsto> held_joystick]\<rparr>"
  have 0: "unhandled_java_input_events ?s = []"
    by (simp add: example_system_def)
  from AdvanceFrame_twice_settles [OF 0, of example_header "(640, 480)"]
  obtain ws1 s1 ws2 s2 where
    1: "InputSystem_AdvanceFrame example_header [] ((640, 480), ?s) = Inr (ws1, s1)"
      "InputSystem_AdvanceFrame example_header [] (ws1, s1) = Inr (ws2, s2)"
    and J: "\<forall>k. rel_option (\<lambda>j j'. list_all2 settled (button_list j) (button_list j'))
            (joystick_map ?s k) (joystick_map s2 k)"
    by blast
  from J have "rel_option (\<lambda>j j'. list_all2 settled (button_list j) (button_list j'))
            (joystick_map ?s 3) (joystick_map s2 3)"
    by (rule spec)
  then have "rel_option (\<lambda>j j'. list_all2 settled (button_list j) (button_list j'))
            (Some held_joystick) (joystick_map s2 3)"
    by simp
  then obtain j' where 2: "joystick_map s2 3 = Some j'"
      "list_all2 settled (button_list held_joystick) (button_list j')"
    by (auto simp: option_rel_Some1)
  from 2(2) have 3: "map is_down (button_list j') = [True, False]"
      "map went_down (button_list j') = [False, False]"
    by (auto simp: held_joystick_def Button_new_def settled_def list_all2_Cons1)
  show ?thesis
    using 0 1 2 3 by (intro conjI exI) assumption+
qed

subsection \<open>Queries\<close>

text \<open>
  C9. \<^verbatim>\<open>InputSystem::GetButton\<close> returns a button for every id and never fails: the
  one of the map, or, for an id the map does not have, a fresh button with
  \<^verbatim>\<open>is_down\<close>, \<^verbatim>\<open>went_down\<close> and \<^verbatim>\<open>went_up\<close> false that it puts into the map.
  \<^verbatim>\<open>InputSystem::GetJoystick\<close> with an id the joystick map does not have is an
  assertion failure: a query never creates a joystick.
\<close>

theorem GetButton_total_GetJoystick_asserts:
  "(\<exists>b s'. InputSystem_GetButton k s = (b, s') \<and> button_map s' k = Some b \<and>
      (\<forall>k'. k' \<noteq> k \<longrightarrow> button_map s' k' = button_map s k') \<and>
      joystick_map s' = joystick_map s \<and>
      (button_map s k = None \<longrightarrow>
         b = \<lparr>is_down = False, went_down = False, went_up = False\<rparr>) \<and>
      (\<forall>b0. button_map s k = Some b0 \<longrightarrow> b = b0 \<and> s' = s)) \<and>
   (joystick_map s jid = None \<longrightarrow> GetJoystick jid s = Inl AssertionFailure) \<and>
   (\<forall>j. joystick_map s jid = Some j \<longrightarrow> GetJoystick jid s = Inr j)"
  by (auto simp: InputSystem_GetButton_def GetJoystick_def Button_new_def split: option.splits)

theorem GetButton_total_GetJoystick_asserts_witness:
  "button_map example_system 5 = None \<and> joystick_map example_system 3 = None \<and>
   InputSystem_GetButton 5 example_system =
     (\<lparr>is_down = False, went_down = False, went_up = False\<rparr>,
      example_system\<lparr>button_map := [5 \<mapsto> \<lparr>is_down = False, went_down = False, went_up = False\<rparr>]\<rparr>) \<and>
   GetJoystick 3 example_system = Inl AssertionFailure \<and>
   joystick_map (example_system\<lparr>joystick_map := [3 \<mapsto> held_joystick]\<rparr>) 3 = Some held_joystick \<and>
   GetJoystick 3 (example_system\<lparr>joystick_map := [3 \<mapsto> held_joystick]\<rparr>) = Inr held_joystick"
  using GetButton_total_GetJoystick_asserts [of 5 example_system 3]
    GetButton_total_GetJoystick_asserts [of 5
      "example_system\<lparr>joystick_map := [3 \<mapsto> held_joystick]\<rparr>" 3]
  by (auto simp: example_system_def InputSystem_GetButton_def)

subsection \<open>Touch events of a finger SDL does not enumerate\<close>

lemma UpdateDragPosition_untracked:
  "fingerId e \<notin> set fingers \<Longrightarrow> UpdateDragPosition fingers e ty ws ps = Inr (0, ps)"
  by (induction fingers) auto

text \<open>
  C10. When no finger SDL enumerates has the id of the event's finger,
  \<^verbatim>\<open>UpdateDragPosition\<close> returns slot 0 and changes no pointer; a finger-down event
  of such a finger then updates, with \<^verbatim>\<open>true\<close>, the pointer button of index 0, the
  primary pointer's, and allocates no slot.
\<close>

theorem untracked_finger_uses_slot_0:
  assumes "fingerId e \<notin> set fingers"
  shows "UpdateDragPosition fingers e ty ws (pointers s) = Inr (0, pointers s) \<and>
     (\<exists>s'. HandleEvent h (TouchFingerEv SDL_FINGERDOWN fingers e) (ws, s) = Inr (ws, s') \<and>
        s' = GetPointerButton_Update h 0 True s \<and>
        pointers s' = pointers s \<and>
        button_map s' (SDLK_POINTER1 h + 0) =
          Some (Button_Update (case button_map s (SDLK_POINTER1 h + 0) of
                                 None \<Rightarrow> Button_new | Some b \<Rightarrow> b) True) \<and>
        (\<forall>k. k \<noteq> SDLK_POINTER1 h + 0 \<longrightarrow> button_map s' k = button_map s k) \<and>
        (\<forall>b'. button_map s' (SDLK_POINTER1 h + 0) = Some b' \<longrightarrow> is_down b'))"
  using assms
  by (auto simp: UpdateDragPosition_untracked GetPointerButton_Update_def GetButton_Update_def
      InputSystem_GetButton_def Button_Update_def Let_def split: option.splits)

theorem untracked_finger_uses_slot_0_witness:
  "fingerId finger_99 \<notin> set [11, 12] \<and>
   UpdateDragPosition [11, 12] finger_99 SDL_FINGERDOWN (640, 480) (pointers example_system) =
     Inr (0, pointers example_system) \<and>
   (\<exists>s'. HandleEvent example_header (TouchFingerEv SDL_FINGERDOWN [11, 12] finger_99)
            ((640, 480), example_system) = Inr ((640, 480), s') \<and>
      pointers s' = [free_pointer, free_pointer] \<and>
      button_map s' 1000 = Some \<lparr>is_down = True, went_down = True, went_up = False\<rparr>)"
  using untracked_finger_uses_slot_0
      [of finger_99 "[11, 12]" SDL_FINGERDOWN "(640, 480)" example_system example_header]
  by (auto simp: finger_99_def example_system_def example_header_def Button_new_def
      Button_Update_def)

text \<open>
  The two cases side by side, with slot 0 held by finger 11 and slot 1 free: a
  finger-down of finger 99 takes slot 1 and presses pointer button 1 when SDL
  enumerates the finger, and presses pointer button 0, finger 11's, when it does not.
\<close>

lemma finger_down_tracked_and_untracked:
  "(let s = example_system\<lparr>pointers :=
              [free_pointer\<lparr>pointer_id := 11, used := True\<rparr>, free_pointer]\<rparr>
    in (\<exists>s'. HandleEvent example_header (TouchFingerEv SDL_FINGERDOWN [11, 99] finger_99)
                ((640, 480), s) = Inr ((640, 480), s') \<and>
          button_map s' 1001 = Some \<lparr>is_down = True, went_down = True, went_up = False\<rparr> \<and>
          button_map s' 1000 = None \<and>
          map used (pointers s') = [True, True] \<and>
          map mousepos (pointers s') = [(0, 0), (320, 240)]) \<and>
       (\<exists>s'. HandleEvent example_header (TouchFingerEv SDL_FINGERDOWN [11] finger_99)
                ((640, 480), s) = Inr ((640, 480), s') \<and>
          button_map s' 1000 = Some \<lparr>is_down = True, went_down = True, went_up = False\<rparr> \<and>
          button_map s' 1001 = None \<and>
          pointers s' = pointers s))"
  by (simp add: Let_def example_system_def example_header_def finger_99_def free_pointer_def
      FindPointer_def RemovePointer_def float_to_int_def GetPointerButton_Update_def
      GetButton_Update_def InputSystem_GetButton_def Button_Update_def Button_new_def)

end
